theory Spec2Isabelle
  imports Complex_Main
begin

section \<open>JavaScript values\<close>

text \<open>
  A JavaScript number is \<open>NaN\<close>, an infinity or a finite double. Every finite double is a
  rational, and the comparisons, \<open>Math.min\<close>, \<open>Number.isInteger\<close> and the truthiness
  test used by the controllers are exact on it. Where a controller calls
  \<open>Number(x)\<close> on a request parameter, the model takes the number the runtime returns:
  the conversion of the string is the runtime's, not the repository's.
\<close>

datatype jsnum = NaN | NegInf | Fin rat | PosInf

fun js_less :: "jsnum \<Rightarrow> jsnum \<Rightarrow> bool" where
  "js_less NaN b = False"
| "js_less a NaN = False"
| "js_less a NegInf = False"
| "js_less NegInf b = True"
| "js_less PosInf b = False"
| "js_less (Fin x) PosInf = True"
| "js_less (Fin x) (Fin y) = (x < y)"

definition js_le :: "jsnum \<Rightarrow> jsnum \<Rightarrow> bool" where
  "js_le a b = (js_less a b \<or> (a \<noteq> NaN \<and> a = b))"

text \<open>\<open>Math.min\<close>: \<open>NaN\<close> if either argument is.\<close>

definition Math_min :: "jsnum \<Rightarrow> jsnum \<Rightarrow> jsnum" where
  "Math_min a b = (if a = NaN \<or> b = NaN then NaN else if js_less a b then a else b)"

definition Number_isNaN :: "jsnum \<Rightarrow> bool" where
  "Number_isNaN n = (n = NaN)"

fun Number_isInteger :: "jsnum \<Rightarrow> bool" where
  "Number_isInteger (Fin x) = (x = of_int \<lfloor>x\<rfloor>)"
| "Number_isInteger n = False"

text \<open>Subtraction and multiplication, exact on the finite values.\<close>

fun js_sub :: "jsnum \<Rightarrow> jsnum \<Rightarrow> jsnum" where
  "js_sub NaN b = NaN"
| "js_sub a NaN = NaN"
| "js_sub (Fin x) (Fin y) = Fin (x - y)"
| "js_sub (Fin x) PosInf = NegInf"
| "js_sub (Fin x) NegInf = PosInf"
| "js_sub PosInf PosInf = NaN"
| "js_sub PosInf b = PosInf"
| "js_sub NegInf NegInf = NaN"
| "js_sub NegInf b = NegInf"

definition js_sign :: "jsnum \<Rightarrow> int" where
  "js_sign a = (case a of NaN \<Rightarrow> 0 | NegInf \<Rightarrow> - 1 | PosInf \<Rightarrow> 1
     | Fin x \<Rightarrow> (if x < 0 then - 1 else if x = 0 then 0 else 1))"

fun js_mul :: "jsnum \<Rightarrow> jsnum \<Rightarrow> jsnum" where
  "js_mul NaN b = NaN"
| "js_mul a NaN = NaN"
| "js_mul (Fin x) (Fin y) = Fin (x * y)"
| "js_mul a b =
     (if js_sign a * js_sign b = 0 then NaN
      else if js_sign a * js_sign b < 0 then NegInf else PosInf)"

text \<open>
  Values of request bodies, stored rows and response bodies. An object is the list of its
  own properties in insertion order; a \<open>Prisma.Decimal\<close> is an exact decimal, a
  \<open>Date\<close> its epoch milliseconds, or the invalid date that \<open>new Date(s)\<close> gives for a
  string it cannot read.
\<close>

datatype jsval =
    Undefined
  | Null
  | Bool bool
  | Num jsnum
  | Str string
  | Dec rat
  | DateV int
  | InvalidDate
  | Obj "(string \<times> jsval) list"
  | Arr "jsval list"

type_synonym obj = "(string \<times> jsval) list"

text \<open>Reading a property: \<open>undefined\<close> when the object has no such key.\<close>

definition get_prop :: "obj \<Rightarrow> string \<Rightarrow> jsval" where
  "get_prop ob k = (case map_of ob k of None \<Rightarrow> Undefined | Some v \<Rightarrow> v)"

text \<open>Assigning a property keeps the key's position, or appends a new key.\<close>

primrec set_prop :: "string \<Rightarrow> jsval \<Rightarrow> obj \<Rightarrow> obj" where
  "set_prop k v [] = [(k, v)]"
| "set_prop k v (p # ps) = (if fst p = k then (k, v) # ps else p # set_prop k v ps)"

text \<open>Object spread \<open>{...a, ...b}\<close>: the properties of \<open>b\<close> are assigned onto \<open>a\<close> in order.\<close>

definition spread :: "obj \<Rightarrow> obj \<Rightarrow> obj" where
  "spread a b = fold (\<lambda>(k, v). set_prop k v) b a"

text \<open>Truthiness, as \<open>if (x)\<close>, \<open>!x\<close>, \<open>x || y\<close> and \<open>x && y\<close> test it.\<close>

fun truthy_num :: "jsnum \<Rightarrow> bool" where
  "truthy_num NaN = False"
| "truthy_num (Fin x) = (x \<noteq> 0)"
| "truthy_num n = True"

fun truthy :: "jsval \<Rightarrow> bool" where
  "truthy Undefined = False"
| "truthy Null = False"
| "truthy (Bool b) = b"
| "truthy (Num n) = truthy_num n"
| "truthy (Str s) = (s \<noteq> [])"
| "truthy v = True"

text \<open>A query parameter under \<open>if (req.query.x)\<close>: the string, when present and not empty.\<close>

definition given :: "string option \<Rightarrow> string option" where
  "given q = (case q of None \<Rightarrow> None | Some t \<Rightarrow> if t = [] then None else Some t)"

section \<open>Pagination (src/utils/pagination.ts)\<close>

definition DEFAULT_PAGE :: jsnum where "DEFAULT_PAGE = Fin 1"
definition DEFAULT_LIMIT :: jsnum where "DEFAULT_LIMIT = Fin 10"
definition MAX_LIMIT :: jsnum where "MAX_LIMIT = Fin 100"

text \<open>
  \<open>getPagination\<close>, on \<open>rawPage = Number(query.page)\<close> and
  \<open>rawLimit = Number(query.limit)\<close>; the result is the pair \<open>(page, limit)\<close>.
\<close>

definition getPagination :: "jsnum \<Rightarrow> jsnum \<Rightarrow> jsnum \<times> jsnum" where
  "getPagination rawPage rawLimit =
     (let page = (if Number_isNaN rawPage \<or> js_less rawPage (Fin 1) then DEFAULT_PAGE else rawPage);
          limit = (if Number_isNaN rawLimit \<or> js_less rawLimit (Fin 1) then DEFAULT_LIMIT
                   else Math_min rawLimit MAX_LIMIT)
      in (page, limit))"

text \<open>
  The invoice and tax profile controllers do not call \<open>getPagination\<close>: their \<open>list\<close>
  computes \<open>Number(req.query.page) || 1\<close>, \<open>Number(req.query.limit) || 10\<close> and
  \<open>skip = (page - 1) * limit\<close> itself. The result is \<open>(page, limit, skip)\<close>.
\<close>

definition or_default :: "jsnum \<Rightarrow> jsnum \<Rightarrow> jsnum" where
  "or_default n d = (if truthy_num n then n else d)"

definition inline_pagination :: "jsnum \<Rightarrow> jsnum \<Rightarrow> jsnum \<times> jsnum \<times> jsnum" where
  "inline_pagination rawPage rawLimit =
     (let page = or_default rawPage (Fin 1);
          limit = or_default rawLimit (Fin 10);
          skip = js_mul (js_sub page (Fin 1)) limit
      in (page, limit, skip))"

section \<open>Errors, the environment, requests and responses\<close>

text \<open>
  What a \<open>catch (err)\<close> can receive: a plain \<open>Error\<close> with its message, or an error
  of the Prisma client with its \<open>code\<close>, its \<open>meta.target\<close> and its message.
\<close>

datatype js_error = Error string | PrismaError string "string list" string

fun err_message :: "js_error \<Rightarrow> string" where
  "err_message (Error m) = m"
| "err_message (PrismaError c t m) = m"

fun err_code :: "js_error \<Rightarrow> string option" where
  "err_code (Error m) = None"
| "err_code (PrismaError c t m) = Some c"

fun err_target :: "js_error \<Rightarrow> string list" where
  "err_target (Error m) = []"
| "err_target (PrismaError c t m) = t"

text \<open>
  The libraries and the clock the code calls are parameters: \<open>bcryptjs\<close>,
  \<open>jsonwebtoken\<close> (\<open>None\<close> where \<open>jwt.verify\<close> throws), the \<open>Prisma.Decimal\<close>
  constructor on a query string (\<open>None\<close> where it throws), the email format test of
  \<open>z.string().email()\<close>, \<open>new Date(s)\<close> on a string (\<open>None\<close> for an invalid date), and
  \<open>new Date()\<close>.
\<close>

datatype model = User | TaxProfile | Invoice

record env =
  now_iso :: string
  now_ms :: int
  JWT_SECRET :: string
  bcrypt_hashSync :: "string \<Rightarrow> nat \<Rightarrow> string"
  bcrypt_compareSync :: "string \<Rightarrow> string \<Rightarrow> bool"
  jwt_sign :: "jsval \<Rightarrow> string \<Rightarrow> string"
  jwt_verify :: "string \<Rightarrow> string \<Rightarrow> jsval option"
  Decimal :: "string \<Rightarrow> rat option"
  zod_email :: "string \<Rightarrow> bool"
  Date_parse :: "string \<Rightarrow> int option"

text \<open>
  The parts of an Express request the handlers read. \<open>param_id\<close>, \<open>query_page\<close> and
  \<open>query_limit\<close> hold \<open>Number(req.params.id)\<close>, \<open>Number(req.query.page)\<close> and
  \<open>Number(req.query.limit)\<close>; the other query parameters are strings or absent; the body
  is a JSON object.
\<close>

record request =
  req_id :: "string option"
  authorization :: "string option"
  cookie_access_token :: "string option"
  param_id :: jsnum
  query_page :: jsnum
  query_limit :: jsnum
  query_email :: "string option"
  query_name :: "string option"
  query_status :: "string option"
  query_minAmount :: "string option"
  query_maxAmount :: "string option"
  body :: obj
  req_user :: "jsval option"

text \<open>
  The Express response under construction: \<open>res.status(c).json(b)\<close> sets the status and
  the body, \<open>res.status(c).send()\<close> leaves the body empty, \<open>res.cookie\<close> adds a cookie.
\<close>

record response =
  status :: nat
  json :: "jsval option"
  set_cookie :: "(string \<times> string) list"

definition res0 :: response where
  "res0 = \<lparr>status = 200, json = None, set_cookie = []\<rparr>"

subsection \<open>src/utils/responses.ts\<close>

text \<open>\<open>...(req?.id && { requestId: req.id })\<close>\<close>

definition requestId_part :: "request \<Rightarrow> obj" where
  "requestId_part req =
     (case req_id req of None \<Rightarrow> [] | Some i \<Rightarrow> if i \<noteq> [] then [(''requestId'', Str i)] else [])"

definition sendSuccess :: "env \<Rightarrow> response \<Rightarrow> jsval \<Rightarrow> nat \<Rightarrow> request \<Rightarrow> response" where
  "sendSuccess e res data statusCode req =
     res\<lparr>status := statusCode,
         json := Some (Obj (spread
           [(''success'', Bool True), (''data'', data), (''timestamp'', Str (now_iso e))]
           (requestId_part req)))\<rparr>"

definition sendError :: "env \<Rightarrow> response \<Rightarrow> string \<Rightarrow> nat \<Rightarrow> request \<Rightarrow> obj \<Rightarrow> response" where
  "sendError e res error statusCode req extra =
     res\<lparr>status := statusCode,
         json := Some (Obj (spread (spread
           [(''success'', Bool False), (''error'', Str error), (''timestamp'', Str (now_iso e))]
           (requestId_part req)) extra))\<rparr>"

subsection \<open>src/utils/validators.ts\<close>

text \<open>\<open>validateNumericId\<close> on \<open>parsed = Number(id)\<close>: the parsed number, or the thrown error.\<close>

definition validateNumericId :: "jsnum \<Rightarrow> string \<Rightarrow> js_error + jsnum" where
  "validateNumericId parsed fieldName =
     (if \<not> Number_isInteger parsed \<or> js_le parsed (Fin 0)
      then Inl (Error (''Invalid '' @ fieldName @ '' format. Must be a positive integer.''))
      else Inr parsed)"

subsection \<open>src/auth/auth.utils.ts\<close>

definition SALT_ROUNDS :: nat where "SALT_ROUNDS = 10"

definition hashPassword :: "env \<Rightarrow> string \<Rightarrow> string" where
  "hashPassword e plain = bcrypt_hashSync e plain SALT_ROUNDS"

definition comparePassword :: "env \<Rightarrow> string \<Rightarrow> string \<Rightarrow> bool" where
  "comparePassword e plain hash = bcrypt_compareSync e plain hash"

definition signJwt :: "env \<Rightarrow> jsval \<Rightarrow> string" where
  "signJwt e payload = jwt_sign e payload (JWT_SECRET e)"

text \<open>\<open>s.split(' ')\<close>: the pieces between single spaces, at least one piece.\<close>

fun split_on :: "char \<Rightarrow> string \<Rightarrow> string list" where
  "split_on c [] = [[]]"
| "split_on c (x # xs) =
     (if x = c then [] # split_on c xs
      else (case split_on c xs of p # ps \<Rightarrow> (x # p) # ps | [] \<Rightarrow> [[x]]))"

text \<open>\<open>xs[i]\<close>: \<open>undefined\<close> past the end.\<close>

definition at_index :: "'a list \<Rightarrow> nat \<Rightarrow> 'a option" where
  "at_index xs i = (if i < length xs then Some (xs ! i) else None)"

text \<open>
  \<open>req.headers.authorization?.split(' ')[1] ?? req.cookies['access_token']\<close>: the cookie
  is read when the header is absent or has no second piece.
\<close>

definition extract_token :: "request \<Rightarrow> string option" where
  "extract_token req =
     (case (case authorization req of None \<Rightarrow> None
            | Some h \<Rightarrow> at_index (split_on CHR '' '' h) 1) of
        Some t \<Rightarrow> Some t
      | None \<Rightarrow> cookie_access_token req)"

text \<open>
  The middleware either answers itself or calls \<open>next()\<close> with the payload attached to
  the request. Its two answers are written with \<open>res.status(401).json\<close> directly, not
  with \<open>sendError\<close>.
\<close>

datatype gate = Respond response | Next request

definition verifyJwt :: "env \<Rightarrow> request \<Rightarrow> response \<Rightarrow> gate" where
  "verifyJwt e req res =
     (case extract_token req of
        None \<Rightarrow> Respond (res\<lparr>status := 401, json := Some (Obj [(''error'', Str ''Missing token'')])\<rparr>)
      | Some token \<Rightarrow>
          if token = []
          then Respond (res\<lparr>status := 401, json := Some (Obj [(''error'', Str ''Missing token'')])\<rparr>)
          else (case jwt_verify e token (JWT_SECRET e) of
                  Some payload \<Rightarrow> Next (req\<lparr>req_user := Some payload\<rparr>)
                | None \<Rightarrow>
                    Respond (res\<lparr>status := 401, json := Some (Obj [(''error'', Str ''Invalid token'')])\<rparr>)))"

text \<open>
  A route \<open>router.METHOD(path, verifyJwt, handler)\<close>: the handler runs only when the
  middleware calls \<open>next()\<close>.
\<close>

definition protected :: "env \<Rightarrow> (request \<Rightarrow> response \<Rightarrow> 'a) \<Rightarrow> request \<Rightarrow> response \<Rightarrow> response + 'a" where
  "protected e handler req res =
     (case verifyJwt e req res of Respond r \<Rightarrow> Inl r | Next req' \<Rightarrow> Inr (handler req' res))"

section \<open>The relational store behind the Prisma client\<close>

text \<open>
  Three tables of rows, as created by the migration: \<open>User\<close> (id, email, password, name,
  createdAt, updatedAt) with a unique index on email, \<open>TaxProfile\<close> (id, userId, name,
  tax_id_number, address, createdAt, updatedAt) and \<open>Invoice\<close> (id, taxProfileId, amount,
  status, issuedAt), with foreign keys that cascade on delete. \<open>user_seq\<close> is the last
  value of the \<open>User\<close> id sequence. The client's operations are modelled as the Prisma
  client runs them on PostgreSQL; a failure of the connection itself is not modelled.
\<close>

record store =
  users :: "obj list"
  taxProfiles :: "obj list"
  invoices :: "obj list"
  user_seq :: int

fun rows :: "store \<Rightarrow> model \<Rightarrow> obj list" where
  "rows s User = users s"
| "rows s TaxProfile = taxProfiles s"
| "rows s Invoice = invoices s"

fun with_rows :: "store \<Rightarrow> model \<Rightarrow> obj list \<Rightarrow> store" where
  "with_rows s User rs = s\<lparr>users := rs\<rparr>"
| "with_rows s TaxProfile rs = s\<lparr>taxProfiles := rs\<rparr>"
| "with_rows s Invoice rs = s\<lparr>invoices := rs\<rparr>"

definition has_id :: "jsnum \<Rightarrow> obj \<Rightarrow> bool" where
  "has_id i r = (get_prop r ''id'' = Num i)"

text \<open>The errors the client throws; only code, target and class matter below.\<close>

definition not_found_error :: js_error where
  "not_found_error = PrismaError ''P2025'' [] ''Record to update or delete does not exist.''"

definition unique_error :: js_error where
  "unique_error = PrismaError ''P2002'' [''email''] ''Unique constraint failed on the fields: (email)''"

definition foreign_key_error :: js_error where
  "foreign_key_error = PrismaError ''P2003'' [] ''Foreign key constraint failed''"

definition validation_error :: js_error where
  "validation_error = Error ''Invalid invocation: argument validation failed''"

definition range_error :: js_error where
  "range_error = Error ''Value out of range for the type of the column''"

text \<open>
  \<open>findUnique({ where: { id } })\<close>: the row, or \<open>null\<close>. The id columns are 32-bit
  integers: the client throws on an id outside \<open>- 2^31\<close> to \<open>2^31 - 1\<close>, and on one
  that is no integer.
\<close>

definition INT4_MAX :: rat where
  "INT4_MAX = 2147483647"

definition findUnique :: "store \<Rightarrow> model \<Rightarrow> jsnum \<Rightarrow> js_error + obj option" where
  "findUnique s m i =
     (case i of
        Fin x \<Rightarrow>
          if x \<noteq> of_int \<lfloor>x\<rfloor> then Inl validation_error
          else if x < - INT4_MAX - 1 \<or> INT4_MAX < x then Inl range_error
          else Inr (find (has_id i) (rows s m))
      | _ \<Rightarrow> Inl validation_error)"

text \<open>
  \<open>findUnique({ where: { email } })\<close>: the client rejects a \<open>where\<close> whose email is
  not a string.
\<close>

definition findUnique_email :: "store \<Rightarrow> jsval \<Rightarrow> js_error + obj option" where
  "findUnique_email s v =
     (case v of Str a \<Rightarrow> Inr (find (\<lambda>r. get_prop r ''email'' = Str a) (users s))
      | _ \<Rightarrow> Inl validation_error)"

text \<open>
  \<open>user.create\<close>: the client rejects data of the wrong type (the name column is
  nullable), the unique index rejects an email that a row already has; otherwise the row
  gets the next id and both timestamps.
\<close>

definition email_taken :: "store \<Rightarrow> jsval \<Rightarrow> bool" where
  "email_taken s v = list_ex (\<lambda>r. get_prop r ''email'' = v) (users s)"

definition new_user :: "env \<Rightarrow> store \<Rightarrow> string \<Rightarrow> string \<Rightarrow> jsval \<Rightarrow> obj \<times> store" where
  "new_user e s a p n =
     (let r = [(''id'', Num (Fin (of_int (user_seq s + 1)))), (''email'', Str a),
               (''password'', Str p), (''name'', n),
               (''createdAt'', DateV (now_ms e)), (''updatedAt'', DateV (now_ms e))]
      in (r, s\<lparr>users := users s @ [r], user_seq := user_seq s + 1\<rparr>))"

definition name_value :: "jsval \<Rightarrow> jsval option" where
  "name_value v =
     (case v of Undefined \<Rightarrow> Some Null | Null \<Rightarrow> Some Null | Str n \<Rightarrow> Some (Str n) | _ \<Rightarrow> None)"

definition user_create :: "env \<Rightarrow> store \<Rightarrow> obj \<Rightarrow> js_error + (obj \<times> store)" where
  "user_create e s data =
     (case (get_prop data ''email'', get_prop data ''password'') of
        (Str a, Str p) \<Rightarrow>
          (case name_value (get_prop data ''name'') of
             None \<Rightarrow> Inl validation_error
           | Some n \<Rightarrow>
               if email_taken s (Str a) then Inl unique_error else Inr (new_user e s a p n))
      | _ \<Rightarrow> Inl validation_error)"

text \<open>
  \<open>update({ where: { id }, data })\<close>. The client rejects an invalid date in \<open>data\<close> and
  a foreign key above \<open>2^31 - 1\<close> before it queries; then \<open>P2025\<close> when no row has the
  id, \<open>P2002\<close> or \<open>P2003\<close> when the new row would break the unique index or a foreign
  key, and an error when the amount does not fit \<open>DECIMAL(12,2)\<close>. Otherwise the
  properties of \<open>data\<close> are written onto the row and the \<open>updatedAt\<close> column of the
  tables that have one is refreshed; with an empty \<open>data\<close> nothing is written.
\<close>

definition invalid_data :: "obj \<Rightarrow> bool" where
  "invalid_data data = list_ex (\<lambda>(k, v). v = InvalidDate) data"

definition above_int4 :: "jsval \<Rightarrow> bool" where
  "above_int4 v = (case v of Num (Fin x) \<Rightarrow> INT4_MAX < x | _ \<Rightarrow> False)"

definition key_out_of_range :: "obj \<Rightarrow> bool" where
  "key_out_of_range data = (above_int4 (get_prop data ''userId'') \<or> above_int4 (get_prop data ''taxProfileId''))"

definition amount_overflow :: "jsval \<Rightarrow> bool" where
  "amount_overflow v = (case v of Dec a \<Rightarrow> 10 ^ 10 \<le> a | _ \<Rightarrow> False)"

definition constraint_violation :: "store \<Rightarrow> model \<Rightarrow> jsnum \<Rightarrow> obj \<Rightarrow> js_error option" where
  "constraint_violation s m i data =
     (case m of
        User \<Rightarrow>
          if get_prop data ''email'' \<noteq> Undefined \<and>
             list_ex (\<lambda>r. get_prop r ''id'' \<noteq> Num i \<and> get_prop r ''email'' = get_prop data ''email'') (users s)
          then Some unique_error else None
      | TaxProfile \<Rightarrow>
          if get_prop data ''userId'' \<noteq> Undefined \<and>
             list_all (\<lambda>r. get_prop r ''id'' \<noteq> get_prop data ''userId'') (users s)
          then Some foreign_key_error else None
      | Invoice \<Rightarrow>
          if get_prop data ''taxProfileId'' \<noteq> Undefined \<and>
             list_all (\<lambda>r. get_prop r ''id'' \<noteq> get_prop data ''taxProfileId'') (taxProfiles s)
          then Some foreign_key_error
          else if amount_overflow (get_prop data ''amount'') then Some range_error else None)"

definition auto_fields :: "env \<Rightarrow> model \<Rightarrow> obj" where
  "auto_fields e m = (if m = Invoice then [] else [(''updatedAt'', DateV (now_ms e))])"

definition written_row :: "env \<Rightarrow> model \<Rightarrow> obj \<Rightarrow> obj \<Rightarrow> obj" where
  "written_row e m r data = (if data = [] then r else spread (spread r (auto_fields e m)) data)"

definition prisma_update :: "env \<Rightarrow> store \<Rightarrow> model \<Rightarrow> jsnum \<Rightarrow> obj \<Rightarrow> js_error + (obj \<times> store)" where
  "prisma_update e s m i data =
     (if invalid_data data then Inl validation_error
      else if key_out_of_range data then Inl range_error
      else (case findUnique s m i of
              Inl err \<Rightarrow> Inl err
            | Inr None \<Rightarrow> Inl not_found_error
            | Inr (Some r) \<Rightarrow>
                (case constraint_violation s m i data of
                   Some err \<Rightarrow> Inl err
                 | None \<Rightarrow>
                     Inr (written_row e m r data,
                          with_rows s m
                            (map (\<lambda>x. if has_id i x then written_row e m r data else x) (rows s m))))))"

text \<open>
  \<open>delete({ where: { id } })\<close>: \<open>P2025\<close> when no row has the id; otherwise the row goes,
  and with it the rows that reference it (tax profiles of a user, invoices of a tax
  profile).
\<close>

definition refers_to :: "string \<Rightarrow> obj list \<Rightarrow> obj \<Rightarrow> bool" where
  "refers_to fk parents r = list_ex (\<lambda>p. get_prop p ''id'' = get_prop r fk) parents"

definition cascade :: "store \<Rightarrow> store" where
  "cascade s =
     (let tps = filter (refers_to ''userId'' (users s)) (taxProfiles s)
      in s\<lparr>taxProfiles := tps, invoices := filter (refers_to ''taxProfileId'' tps) (invoices s)\<rparr>)"

definition prisma_delete :: "store \<Rightarrow> model \<Rightarrow> jsnum \<Rightarrow> js_error + (obj \<times> store)" where
  "prisma_delete s m i =
     (case findUnique s m i of
        Inl err \<Rightarrow> Inl err
      | Inr None \<Rightarrow> Inl not_found_error
      | Inr (Some r) \<Rightarrow> Inr (r, cascade (with_rows s m (filter (\<lambda>x. \<not> has_id i x) (rows s m)))))"

subsection \<open>Queries: \<open>where\<close>, \<open>orderBy\<close>, \<open>skip\<close> and \<open>take\<close>\<close>

text \<open>
  \<open>s.includes(t)\<close>, for the statements below, and lower case on the ASCII letters (\<open>A\<close>
  to \<open>Z\<close> are the codes 65 to 90, and setting the bit of weight 32 gives the lower-case
  letter).
\<close>

fun starts_with :: "string \<Rightarrow> string \<Rightarrow> bool" where
  "starts_with s [] = True"
| "starts_with [] (y # ys) = False"
| "starts_with (x # xs) (y # ys) = (x = y \<and> starts_with xs ys)"

fun str_includes :: "string \<Rightarrow> string \<Rightarrow> bool" where
  "str_includes [] t = (t = [])"
| "str_includes (x # xs) t = (starts_with (x # xs) t \<or> str_includes xs t)"

definition lower_char :: "char \<Rightarrow> char" where
  "lower_char c =
     (if 65 \<le> (of_char c :: nat) \<and> (of_char c :: nat) \<le> 90
      then (case c of Char b0 b1 b2 b3 b4 b5 b6 b7 \<Rightarrow> Char b0 b1 b2 b3 b4 True b6 b7)
      else c)"

definition lower :: "string \<Rightarrow> string" where
  "lower s = map lower_char s"

datatype str_mode = ModeDefault | ModeInsensitive

text \<open>
  A \<open>contains\<close> filter reaches PostgreSQL as \<open>column LIKE '%text%'\<close>, or \<open>ILIKE\<close> with
  \<open>mode: 'insensitive'\<close>, and the client does not escape the text: in the pattern
  \<open>%\<close> stands for any run of characters, \<open>_\<close> for any one character, and a backslash
  makes the next character stand for itself. \<open>like p s\<close> matches the subject \<open>s\<close>
  against the pattern \<open>p\<close>. A pattern that ends in a lone backslash matches nothing; the
  pattern of a \<open>contains\<close> filter ends in \<open>%\<close>.
\<close>

definition backslash :: char where
  "backslash = CHR 0x5C"

fun like :: "string \<Rightarrow> string \<Rightarrow> bool" where
  "like [] [] = True"
| "like [] (c # cs) = False"
| "like (p # ps) [] = (p = CHR ''%'' \<and> like ps [])"
| "like (p # ps) (c # cs) =
     (if p = CHR ''%'' then like ps (c # cs) \<or> like (p # ps) cs
      else if p = CHR ''_'' then like ps cs
      else if p = backslash then (case ps of [] \<Rightarrow> False | q # qs \<Rightarrow> q = c \<and> like qs cs)
      else p = c \<and> like ps cs)"

definition contains_pattern :: "string \<Rightarrow> string" where
  "contains_pattern t = CHR ''%'' # t @ ''%''"

text \<open>A text is literal when none of its characters is special in a pattern.\<close>

definition literal :: "string \<Rightarrow> bool" where
  "literal t = list_all (\<lambda>c. c \<noteq> CHR ''%'' \<and> c \<noteq> CHR ''_'' \<and> c \<noteq> backslash) t"

text \<open>
  One condition of a \<open>where\<close> object: \<open>field: value\<close>,
  \<open>field: { contains, mode }\<close> or \<open>field: { gte, lte }\<close>. A \<open>where\<close> object is the
  list of its conditions, each under the path of relation names that leads to the field
  (\<open>taxProfile.user.email\<close>); a row matches when every condition holds.
\<close>

datatype wfilter =
    Equals jsval
  | StringFilter string str_mode
  | DecimalFilter "rat option" "rat option"

type_synonym where_input = "(string list \<times> wfilter) list"

fun filter_holds :: "wfilter \<Rightarrow> jsval \<Rightarrow> bool" where
  "filter_holds (Equals v) x = (x = v)"
| "filter_holds (StringFilter t ModeDefault) (Str a) = like (contains_pattern t) a"
| "filter_holds (StringFilter t ModeInsensitive) (Str a) = like (lower (contains_pattern t)) (lower a)"
| "filter_holds (DecimalFilter lo hi) (Dec a) =
     ((case lo of None \<Rightarrow> True | Some l \<Rightarrow> l \<le> a) \<and> (case hi of None \<Rightarrow> True | Some h \<Rightarrow> a \<le> h))"
| "filter_holds f x = False"

definition related :: "store \<Rightarrow> model \<Rightarrow> string \<Rightarrow> obj \<Rightarrow> (model \<times> obj) option" where
  "related s m rel r =
     (if m = Invoice \<and> rel = ''taxProfile''
      then map_option (Pair TaxProfile)
             (find (\<lambda>p. get_prop p ''id'' = get_prop r ''taxProfileId'') (taxProfiles s))
      else if m = TaxProfile \<and> rel = ''user''
      then map_option (Pair User) (find (\<lambda>p. get_prop p ''id'' = get_prop r ''userId'') (users s))
      else None)"

fun resolve :: "store \<Rightarrow> model \<Rightarrow> string list \<Rightarrow> obj \<Rightarrow> jsval" where
  "resolve s m [] r = Undefined"
| "resolve s m [f] r = get_prop r f"
| "resolve s m (rel # p) r =
     (case related s m rel r of None \<Rightarrow> Undefined | Some (m', r') \<Rightarrow> resolve s m' p r')"

definition matches :: "store \<Rightarrow> model \<Rightarrow> where_input \<Rightarrow> obj \<Rightarrow> bool" where
  "matches s m w r = list_all (\<lambda>(p, f). filter_holds f (resolve s m p r)) w"

definition count :: "store \<Rightarrow> model \<Rightarrow> where_input \<Rightarrow> nat" where
  "count s m w = length (filter (matches s m w) (rows s m))"

text \<open>
  \<open>orderBy: { field: 'desc' }\<close> on a number or date column. \<open>skip\<close> and \<open>take\<close> are
  sent as integers: a fraction is cut off, a value outside 64 bits (or no finite number)
  and a negative \<open>skip\<close> are rejected, a negative \<open>take\<close> counts from the end of the
  ordered rows.
\<close>

definition trunc :: "rat \<Rightarrow> int" where
  "trunc x = (if 0 \<le> x then \<lfloor>x\<rfloor> else \<lceil>x\<rceil>)"

definition int64 :: "int \<Rightarrow> bool" where
  "int64 n = (- (2 ^ 63) \<le> n \<and> n < 2 ^ 63)"

fun order_key :: "jsval \<Rightarrow> rat" where
  "order_key (Num (Fin x)) = x"
| "order_key (DateV t) = of_int t"
| "order_key v = 0"

definition order_desc :: "string \<Rightarrow> obj list \<Rightarrow> obj list" where
  "order_desc f rs = sort_key (\<lambda>r. - order_key (get_prop r f)) rs"

definition window :: "jsnum \<Rightarrow> jsnum \<Rightarrow> 'a list \<Rightarrow> js_error + 'a list" where
  "window sk tk xs =
     (case (sk, tk) of
        (Fin a, Fin b) \<Rightarrow>
          if int64 (trunc a) \<and> int64 (trunc b) \<and> 0 \<le> trunc a
          then (if 0 \<le> trunc b then Inr (take (nat (trunc b)) (drop (nat (trunc a)) xs))
                else Inr (rev (take (nat (- trunc b)) (drop (nat (trunc a)) (rev xs)))))
          else Inl validation_error
      | _ \<Rightarrow> Inl validation_error)"

definition findMany :: "store \<Rightarrow> model \<Rightarrow> where_input \<Rightarrow> string \<Rightarrow> jsnum \<Rightarrow> jsnum \<Rightarrow> js_error + obj list" where
  "findMany s m w fld sk tk = window sk tk (order_desc fld (filter (matches s m w) (rows s m)))"

section \<open>The update schemas (src/schemas)\<close>

text \<open>
  A field schema takes the value of its key, \<open>undefined\<close> when the key is absent, and
  gives its output or fails (\<open>None\<close>). The string tests count characters; \<open>\d\<close> is an
  ASCII digit.
\<close>

type_synonym field = "jsval \<Rightarrow> jsval option"

definition is_digit :: "char \<Rightarrow> bool" where
  "is_digit c = (48 \<le> (of_char c :: nat) \<and> (of_char c :: nat) \<le> 57)"

definition is_alnum :: "char \<Rightarrow> bool" where
  "is_alnum c =
     (is_digit c \<or> (65 \<le> (of_char c :: nat) \<and> (of_char c :: nat) \<le> 90) \<or>
      (97 \<le> (of_char c :: nat) \<and> (of_char c :: nat) \<le> 122))"

definition digits_val :: "string \<Rightarrow> nat" where
  "digits_val ds = foldl (\<lambda>n c. 10 * n + (of_char c - 48)) 0 ds"

text \<open>\<open>z.number().int().positive()\<close>: an integer within the safe range, above 0.\<close>

definition positive_int :: field where
  "positive_int v =
     (case v of
        Num (Fin x) \<Rightarrow>
          if x = of_int \<lfloor>x\<rfloor> \<and> \<bar>x\<bar> \<le> 9007199254740991 \<and> 0 < x then Some v else None
      | _ \<Rightarrow> None)"

text \<open>user.schema.ts\<close>

definition Email :: "env \<Rightarrow> field" where
  "Email e v = (case v of Str a \<Rightarrow> if zod_email e a then Some v else None | _ \<Rightarrow> None)"

definition Password :: field where
  "Password v = (case v of Str p \<Rightarrow> if 12 \<le> length p then Some v else None | _ \<Rightarrow> None)"

definition Name :: field where
  "Name v = (case v of Str n \<Rightarrow> Some v | _ \<Rightarrow> None)"

text \<open>taxProfile.schema.ts\<close>

definition TaxProfileUserId :: field where
  "TaxProfileUserId = positive_int"

definition TaxProfileName :: field where
  "TaxProfileName v = (case v of Str n \<Rightarrow> if 1 \<le> length n then Some v else None | _ \<Rightarrow> None)"

definition TaxProfileTaxIdNumber :: field where
  "TaxProfileTaxIdNumber v =
     (case v of
        Str t \<Rightarrow>
          if 5 \<le> length t \<and> length t \<le> 30 \<and> t \<noteq> [] \<and>
             list_all (\<lambda>c. is_alnum c \<or> c = CHR ''-'') t
          then Some v else None
      | _ \<Rightarrow> None)"

definition TaxProfileAddress :: field where
  "TaxProfileAddress v =
     (case v of Str a \<Rightarrow> if 10 \<le> length a \<and> length a \<le> 255 then Some v else None | _ \<Rightarrow> None)"

text \<open>
  invoice.schema.ts. \<open>InvoiceAmount\<close> accepts \<open>/^\d+(\.\d{1,2})?$/\<close> and turns the
  string into the decimal it writes. \<open>InvoiceIssuedAt\<close> is
  \<open>z.string().optional().transform(v => (v ? new Date(v) : new Date()))\<close>: it accepts
  \<open>undefined\<close>, and gives the current time for it and for the empty string.
\<close>

definition TaxProfileId :: field where
  "TaxProfileId = positive_int"

definition InvoiceAmount :: field where
  "InvoiceAmount v =
     (case v of
        Str t \<Rightarrow>
          (let whole = takeWhile is_digit t; rest = dropWhile is_digit t
           in if whole = [] then None
              else (case rest of
                      [] \<Rightarrow> Some (Dec (of_nat (digits_val whole)))
                    | c # decimals \<Rightarrow>
                        if c = CHR ''.'' \<and> list_all is_digit decimals \<and>
                           (length decimals = 1 \<or> length decimals = 2)
                        then Some (Dec (of_nat (digits_val whole) +
                                        of_nat (digits_val decimals) / 10 ^ length decimals))
                        else None))
      | _ \<Rightarrow> None)"

definition InvoiceStatus :: field where
  "InvoiceStatus v =
     (case v of
        Str t \<Rightarrow> if t = ''draft'' \<or> t = ''sent'' \<or> t = ''paid'' then Some v else None
      | _ \<Rightarrow> None)"

definition new_Date :: "env \<Rightarrow> string \<Rightarrow> jsval" where
  "new_Date e t = (case Date_parse e t of None \<Rightarrow> InvalidDate | Some ms \<Rightarrow> DateV ms)"

definition InvoiceIssuedAt :: "env \<Rightarrow> field" where
  "InvoiceIssuedAt e v =
     (case v of
        Undefined \<Rightarrow> Some (DateV (now_ms e))
      | Str t \<Rightarrow> Some (if t = [] then DateV (now_ms e) else new_Date e t)
      | _ \<Rightarrow> None)"

text \<open>
  \<open>.partial()\<close> wraps every field in an optional. As zod 4.0 to 4.2 run it, the optional
  gives \<open>undefined\<close> for an \<open>undefined\<close> input without running the field, unless the
  field itself accepts \<open>undefined\<close> (\<open>accepts = True\<close>, which holds for
  \<open>InvoiceIssuedAt\<close> only): then the field runs on every input. An object schema runs
  its fields in order on the properties of the input, fails when one of them fails,
  drops the other keys of the input, and sets a key whose output is \<open>undefined\<close> only
  when the input has the key.
\<close>

definition partial_field :: "bool \<Rightarrow> field \<Rightarrow> field" where
  "partial_field accepts f v = (if accepts then f v else if v = Undefined then Some Undefined else f v)"

fun parse_object :: "(string \<times> field) list \<Rightarrow> obj \<Rightarrow> obj option" where
  "parse_object [] input = Some []"
| "parse_object ((k, f) # fs) input =
     (case f (get_prop input k) of
        None \<Rightarrow> None
      | Some v \<Rightarrow>
          (case parse_object fs input of
             None \<Rightarrow> None
           | Some out \<Rightarrow>
               Some (if v = Undefined \<and> k \<notin> set (map fst input) then out else (k, v) # out)))"

text \<open>
  \<open>UserUpdateSchema.safeParse(body)\<close> and its two siblings: \<open>None\<close> where \<open>success\<close>
  is false, else the parsed \<open>data\<close>.
\<close>

definition UserUpdateSchema :: "env \<Rightarrow> obj \<Rightarrow> obj option" where
  "UserUpdateSchema e =
     parse_object [(''email'', partial_field False (Email e)),
                   (''password'', partial_field False Password),
                   (''name'', partial_field False Name)]"

definition TaxProfileUpdateSchema :: "env \<Rightarrow> obj \<Rightarrow> obj option" where
  "TaxProfileUpdateSchema e =
     parse_object [(''userId'', partial_field False TaxProfileUserId),
                   (''name'', partial_field False TaxProfileName),
                   (''tax_id_number'', partial_field False TaxProfileTaxIdNumber),
                   (''address'', partial_field False TaxProfileAddress)]"

definition InvoiceUpdateSchema :: "env \<Rightarrow> obj \<Rightarrow> obj option" where
  "InvoiceUpdateSchema e =
     parse_object [(''taxProfileId'', partial_field False TaxProfileId),
                   (''amount'', partial_field False InvoiceAmount),
                   (''status'', partial_field False InvoiceStatus),
                   (''issuedAt'', partial_field True (InvoiceIssuedAt e))]"

section \<open>Controllers\<close>

text \<open>
  A handler takes the environment, the store, the request and the response under
  construction; a handler that writes returns the new store with its response. The log
  calls have no effect on either and are left out. \<open>try_bind\<close> sequences two steps of a
  \<open>try\<close> block: an error of the first skips the second.
\<close>

definition try_bind :: "'e + 'a \<Rightarrow> ('a \<Rightarrow> 'e + 'b) \<Rightarrow> 'e + 'b" where
  "try_bind x f = (case x of Inl err \<Rightarrow> Inl err | Inr a \<Rightarrow> f a)"

text \<open>\<open>cleanUndefined\<close>, and the same filter written inline in the user controller.\<close>

definition cleanUndefined :: "obj \<Rightarrow> obj" where
  "cleanUndefined ob = filter (\<lambda>(k, v). v \<noteq> Undefined) ob"

text \<open>\<open>res.status(204).send()\<close>\<close>

definition no_content :: "response \<Rightarrow> response" where
  "no_content res = res\<lparr>status := 204, json := None\<rparr>"

subsection \<open>src/services/user.service.ts\<close>

definition getUser :: "store \<Rightarrow> jsnum \<Rightarrow> js_error + obj option" where
  "getUser s i = findUnique s User i"

definition updateUser :: "env \<Rightarrow> store \<Rightarrow> jsnum \<Rightarrow> obj \<Rightarrow> js_error + (obj \<times> store)" where
  "updateUser e s i data = prisma_update e s User i data"

definition deleteUser :: "store \<Rightarrow> jsnum \<Rightarrow> js_error + (obj \<times> store)" where
  "deleteUser s i = prisma_delete s User i"

definition listUsers :: "store \<Rightarrow> jsnum \<Rightarrow> jsnum \<Rightarrow> where_input \<Rightarrow> js_error + obj list" where
  "listUsers s page limit w =
     (let skip = js_mul (js_sub page (Fin 1)) limit
      in findMany s User w ''createdAt'' skip limit)"

subsection \<open>src/controllers/user.controller.ts\<close>

definition user_get :: "env \<Rightarrow> store \<Rightarrow> request \<Rightarrow> response \<Rightarrow> response" where
  "user_get e s req res =
     (case try_bind (validateNumericId (param_id req) ''User ID'') (getUser s) of
        Inl err \<Rightarrow> sendError e res (err_message err) 400 req []
      | Inr None \<Rightarrow> sendError e res ''Not found'' 404 req []
      | Inr (Some u) \<Rightarrow> sendSuccess e res (Obj u) 200 req)"

text \<open>
  \<open>if (cleaned.password) cleaned.password = hashPassword(cleaned.password)\<close>;
  \<open>bcrypt.hashSync\<close> throws on an argument that is not a string.
\<close>

definition rehash :: "env \<Rightarrow> obj \<Rightarrow> js_error + obj" where
  "rehash e cleaned =
     (if truthy (get_prop cleaned ''password'')
      then (case get_prop cleaned ''password'' of
              Str p \<Rightarrow> Inr (set_prop ''password'' (Str (hashPassword e p)) cleaned)
            | _ \<Rightarrow> Inl (Error ''Illegal arguments''))
      else Inr cleaned)"

definition user_update :: "env \<Rightarrow> store \<Rightarrow> request \<Rightarrow> response \<Rightarrow> response \<times> store" where
  "user_update e s req res =
     (case validateNumericId (param_id req) ''User ID'' of
        Inl err \<Rightarrow> (sendError e res (err_message err) 400 req [], s)
      | Inr i \<Rightarrow>
          (case UserUpdateSchema e (body req) of
             None \<Rightarrow> (sendError e res ''Validation failed'' 400 req [], s)
           | Some data \<Rightarrow>
               (case try_bind (rehash e (cleanUndefined data)) (updateUser e s i) of
                  Inl err \<Rightarrow> (sendError e res (err_message err) 400 req [], s)
                | Inr (u, s') \<Rightarrow> (sendSuccess e res (Obj u) 200 req, s'))))"

definition user_remove :: "env \<Rightarrow> store \<Rightarrow> request \<Rightarrow> response \<Rightarrow> response \<times> store" where
  "user_remove e s req res =
     (case try_bind (validateNumericId (param_id req) ''User ID'') (deleteUser s) of
        Inl err \<Rightarrow> (sendError e res (err_message err) 400 req [], s)
      | Inr (u, s') \<Rightarrow> (no_content res, s'))"

definition user_where :: "request \<Rightarrow> where_input" where
  "user_where req =
     (case given (query_email req) of None \<Rightarrow> []
      | Some t \<Rightarrow> [([''email''], StringFilter t ModeDefault)]) @
     (case given (query_name req) of None \<Rightarrow> []
      | Some t \<Rightarrow> [([''name''], StringFilter t ModeDefault)])"

definition user_list :: "env \<Rightarrow> store \<Rightarrow> request \<Rightarrow> response \<Rightarrow> response" where
  "user_list e s req res =
     (case getPagination (query_page req) (query_limit req) of
        (page, limit) \<Rightarrow>
          (case listUsers s page limit (user_where req) of
             Inl err \<Rightarrow> sendError e res ''List failed'' 500 req []
           | Inr us \<Rightarrow>
               sendSuccess e res
                 (Obj [(''page'', Num page), (''limit'', Num limit), (''data'', Arr (map Obj us))])
                 200 req))"

subsection \<open>src/controllers/invoice.controller.ts\<close>

definition invoice_get :: "env \<Rightarrow> store \<Rightarrow> request \<Rightarrow> response \<Rightarrow> response" where
  "invoice_get e s req res =
     (case try_bind (validateNumericId (param_id req) ''Invoice ID'') (findUnique s Invoice) of
        Inl err \<Rightarrow> sendError e res (err_message err) 400 req []
      | Inr None \<Rightarrow> sendError e res ''Not found'' 404 req []
      | Inr (Some r) \<Rightarrow> sendSuccess e res (Obj r) 200 req)"

definition invoice_update :: "env \<Rightarrow> store \<Rightarrow> request \<Rightarrow> response \<Rightarrow> response \<times> store" where
  "invoice_update e s req res =
     (case validateNumericId (param_id req) ''Invoice ID'' of
        Inl err \<Rightarrow> (sendError e res (err_message err) 400 req [], s)
      | Inr i \<Rightarrow>
          (case InvoiceUpdateSchema e (body req) of
             None \<Rightarrow> (sendError e res ''Validation failed'' 400 req [], s)
           | Some data \<Rightarrow>
               (case prisma_update e s Invoice i (cleanUndefined data) of
                  Inl err \<Rightarrow> (sendError e res (err_message err) 400 req [], s)
                | Inr (r, s') \<Rightarrow> (sendSuccess e res (Obj r) 200 req, s'))))"

definition invoice_remove :: "env \<Rightarrow> store \<Rightarrow> request \<Rightarrow> response \<Rightarrow> response \<times> store" where
  "invoice_remove e s req res =
     (case try_bind (validateNumericId (param_id req) ''Invoice ID'') (prisma_delete s Invoice) of
        Inl err \<Rightarrow>
          if err_code err = Some ''P2025''
          then (sendError e res ''Not found'' 404 req [], s)
          else (sendError e res (err_message err) 400 req [], s)
      | Inr (r, s') \<Rightarrow> (no_content res, s'))"

text \<open>
  The filter object of the invoice \<open>list\<close>. \<open>new Prisma.Decimal(...)\<close> is called before
  the \<open>try\<close> block: where it throws, the handler's promise rejects (\<open>Inl\<close>).
\<close>

definition decimal_param :: "env \<Rightarrow> string option \<Rightarrow> js_error + rat option" where
  "decimal_param e q =
     (case given q of None \<Rightarrow> Inr None
      | Some t \<Rightarrow>
          (case Decimal e t of None \<Rightarrow> Inl (Error (''[DecimalError] Invalid argument: '' @ t))
           | Some d \<Rightarrow> Inr (Some d)))"

definition invoice_where :: "env \<Rightarrow> request \<Rightarrow> js_error + where_input" where
  "invoice_where e req =
     try_bind (decimal_param e (query_minAmount req)) (\<lambda>lo.
     try_bind (decimal_param e (query_maxAmount req)) (\<lambda>hi.
       Inr ((case given (query_status req) of None \<Rightarrow> []
             | Some t \<Rightarrow> [([''status''], Equals (Str t))]) @
            (case given (query_email req) of None \<Rightarrow> []
             | Some t \<Rightarrow> [([''taxProfile'', ''user'', ''email''], StringFilter t ModeInsensitive)]) @
            (if lo = None \<and> hi = None then [] else [([''amount''], DecimalFilter lo hi)]))))"

text \<open>\<open>include: { taxProfile: { include: { user: true } } }\<close>\<close>

definition include_owner :: "store \<Rightarrow> obj \<Rightarrow> obj" where
  "include_owner s r =
     (case related s Invoice ''taxProfile'' r of
        None \<Rightarrow> set_prop ''taxProfile'' Null r
      | Some (m, tp) \<Rightarrow>
          set_prop ''taxProfile''
            (Obj (set_prop ''user''
                    (case related s TaxProfile ''user'' tp of None \<Rightarrow> Null | Some (m', u) \<Rightarrow> Obj u)
                    tp))
            r)"

definition invoice_list :: "env \<Rightarrow> store \<Rightarrow> request \<Rightarrow> response \<Rightarrow> js_error + response" where
  "invoice_list e s req res =
     (case inline_pagination (query_page req) (query_limit req) of
        (page, limit, skip) \<Rightarrow>
          try_bind (invoice_where e req) (\<lambda>w.
            Inr (case findMany s Invoice w ''issuedAt'' skip limit of
                   Inl err \<Rightarrow> sendError e res ''Internal server error'' 500 req []
                 | Inr rs \<Rightarrow>
                     sendSuccess e res
                       (Obj [(''page'', Num page), (''limit'', Num limit),
                             (''total'', Num (Fin (of_nat (count s Invoice w)))),
                             (''data'', Arr (map (\<lambda>r. Obj (include_owner s r)) rs))])
                       200 req)))"

subsection \<open>src/controllers/taxProfile.controller.ts\<close>

definition taxProfile_get :: "env \<Rightarrow> store \<Rightarrow> request \<Rightarrow> response \<Rightarrow> response" where
  "taxProfile_get e s req res =
     (case try_bind (validateNumericId (param_id req) ''Tax Profile ID'') (findUnique s TaxProfile) of
        Inl err \<Rightarrow> sendError e res (err_message err) 400 req []
      | Inr None \<Rightarrow> sendError e res ''Not found'' 404 req []
      | Inr (Some r) \<Rightarrow> sendSuccess e res (Obj r) 200 req)"

definition taxProfile_update :: "env \<Rightarrow> store \<Rightarrow> request \<Rightarrow> response \<Rightarrow> response \<times> store" where
  "taxProfile_update e s req res =
     (case validateNumericId (param_id req) ''Tax Profile ID'' of
        Inl err \<Rightarrow> (sendError e res (err_message err) 400 req [], s)
      | Inr i \<Rightarrow>
          (case TaxProfileUpdateSchema e (body req) of
             None \<Rightarrow> (sendError e res ''Validation failed'' 400 req [], s)
           | Some data \<Rightarrow>
               (case prisma_update e s TaxProfile i (cleanUndefined data) of
                  Inl err \<Rightarrow> (sendError e res (err_message err) 400 req [], s)
                | Inr (r, s') \<Rightarrow> (sendSuccess e res (Obj r) 200 req, s'))))"

definition taxProfile_remove :: "env \<Rightarrow> store \<Rightarrow> request \<Rightarrow> response \<Rightarrow> response \<times> store" where
  "taxProfile_remove e s req res =
     (case try_bind (validateNumericId (param_id req) ''Tax Profile ID'') (prisma_delete s TaxProfile) of
        Inl err \<Rightarrow>
          if err_code err = Some ''P2025''
          then (sendError e res ''Not found'' 404 req [], s)
          else (sendError e res (err_message err) 400 req [], s)
      | Inr (r, s') \<Rightarrow> (no_content res, s'))"

text \<open>The keys of the three update schemas.\<close>

fun schema_fields :: "model \<Rightarrow> string list" where
  "schema_fields User = [''email'', ''password'', ''name'']"
| "schema_fields TaxProfile = [''userId'', ''name'', ''tax_id_number'', ''address'']"
| "schema_fields Invoice = [''taxProfileId'', ''amount'', ''status'', ''issuedAt'']"

fun UpdateSchema :: "model \<Rightarrow> env \<Rightarrow> obj \<Rightarrow> obj option" where
  "UpdateSchema User = UserUpdateSchema"
| "UpdateSchema TaxProfile = TaxProfileUpdateSchema"
| "UpdateSchema Invoice = InvoiceUpdateSchema"

text \<open>The controller of each entity, for statements about all three.\<close>

fun get :: "model \<Rightarrow> env \<Rightarrow> store \<Rightarrow> request \<Rightarrow> response \<Rightarrow> response" where
  "get User = user_get"
| "get TaxProfile = taxProfile_get"
| "get Invoice = invoice_get"

fun update :: "model \<Rightarrow> env \<Rightarrow> store \<Rightarrow> request \<Rightarrow> response \<Rightarrow> response \<times> store" where
  "update User = user_update"
| "update TaxProfile = taxProfile_update"
| "update Invoice = invoice_update"

fun remove :: "model \<Rightarrow> env \<Rightarrow> store \<Rightarrow> request \<Rightarrow> response \<Rightarrow> response \<times> store" where
  "remove User = user_remove"
| "remove TaxProfile = taxProfile_remove"
| "remove Invoice = invoice_remove"

subsection \<open>src/controllers/auth.controller.ts\<close>

text \<open>
  \<open>bcrypt.hashSync\<close> and \<open>bcrypt.compareSync\<close> throw on an argument that is not a
  string. \<open>res.cookie('access_token', token, ...)\<close> adds the cookie.
\<close>

definition hash_arg :: "env \<Rightarrow> jsval \<Rightarrow> js_error + string" where
  "hash_arg e v = (case v of Str p \<Rightarrow> Inr (hashPassword e p) | _ \<Rightarrow> Inl (Error ''Illegal arguments''))"

definition compare_args :: "env \<Rightarrow> jsval \<Rightarrow> jsval \<Rightarrow> js_error + bool" where
  "compare_args e v h =
     (case (v, h) of (Str p, Str q) \<Rightarrow> Inr (comparePassword e p q)
      | _ \<Rightarrow> Inl (Error ''Illegal arguments''))"

definition with_cookie :: "string \<Rightarrow> response \<Rightarrow> response" where
  "with_cookie token res = res\<lparr>set_cookie := set_cookie res @ [(''access_token'', token)]\<rparr>"

text \<open>The \<open>catch\<close> block of \<open>register\<close>.\<close>

definition register_catch :: "env \<Rightarrow> response \<Rightarrow> request \<Rightarrow> js_error \<Rightarrow> response" where
  "register_catch e res req err =
     (if err_code err = Some ''P2002'' \<and> ''email'' \<in> set (err_target err)
      then sendError e res ''Email already used'' 409 req []
      else sendError e res ''Registration failed'' 500 req [])"

text \<open>
  \<open>register\<close> awaits the store twice, first \<open>findUnique\<close> and then \<open>create\<close>, and
  other requests may write in between: \<open>register_at\<close> reads the store \<open>s0\<close> in the
  check and creates in the store \<open>s\<close>. \<open>register\<close> is the run with no write in
  between.
\<close>

definition register_at :: "env \<Rightarrow> store \<Rightarrow> store \<Rightarrow> request \<Rightarrow> response \<Rightarrow> response \<times> store" where
  "register_at e s0 s req res =
     (let email = get_prop (body req) ''email'';
          password = get_prop (body req) ''password'';
          name = get_prop (body req) ''name''
      in case findUnique_email s0 email of
           Inl err \<Rightarrow> (register_catch e res req err, s)
         | Inr (Some existing) \<Rightarrow> (sendError e res ''Email already used'' 409 req [], s)
         | Inr None \<Rightarrow>
             (case try_bind (hash_arg e password)
                     (\<lambda>h. user_create e s [(''email'', email), (''password'', Str h), (''name'', name)]) of
                Inl err \<Rightarrow> (register_catch e res req err, s)
              | Inr (u, s') \<Rightarrow>
                  (let token = signJwt e (Obj [(''sub'', get_prop u ''id'')])
                   in (sendSuccess e (with_cookie token res)
                         (Obj [(''token'', Str token),
                               (''user'', Obj [(''id'', get_prop u ''id''), (''email'', email), (''name'', name)])])
                         201 req, s'))))"

definition register :: "env \<Rightarrow> store \<Rightarrow> request \<Rightarrow> response \<Rightarrow> response \<times> store" where
  "register e s req res = register_at e s s req res"

definition login :: "env \<Rightarrow> store \<Rightarrow> request \<Rightarrow> response \<Rightarrow> response" where
  "login e s req res =
     (let email = get_prop (body req) ''email'';
          password = get_prop (body req) ''password''
      in case findUnique_email s email of
           Inl err \<Rightarrow> sendError e res ''Login failed'' 500 req []
         | Inr None \<Rightarrow> sendError e res ''Invalid credentials'' 401 req []
         | Inr (Some u) \<Rightarrow>
             (case compare_args e password (get_prop u ''password'') of
                Inl err \<Rightarrow> sendError e res ''Login failed'' 500 req []
              | Inr False \<Rightarrow> sendError e res ''Invalid credentials'' 401 req []
              | Inr True \<Rightarrow>
                  (let token = signJwt e (Obj [(''sub'', get_prop u ''id'')])
                   in sendSuccess e (with_cookie token res)
                        (Obj [(''token'', Str token),
                              (''user'', Obj [(''id'', get_prop u ''id''),
                                              (''email'', get_prop u ''email''),
                                              (''name'', get_prop u ''name'')])])
                        200 req)))"

section \<open>Reading a response, and example data\<close>

text \<open>The keys of a JSON body, and the page of a list response with its \<open>limit\<close>.\<close>

definition body_keys :: "response \<Rightarrow> string list" where
  "body_keys res = (case json res of Some (Obj b) \<Rightarrow> map fst b | _ \<Rightarrow> [])"

definition body_prop :: "response \<Rightarrow> string \<Rightarrow> jsval" where
  "body_prop res k = (case json res of Some (Obj b) \<Rightarrow> get_prop b k | _ \<Rightarrow> Undefined)"

definition data_prop :: "response \<Rightarrow> string \<Rightarrow> jsval" where
  "data_prop res k = (case body_prop res ''data'' of Obj d \<Rightarrow> get_prop d k | _ \<Rightarrow> Undefined)"

definition page_items :: "response \<Rightarrow> jsval list" where
  "page_items res = (case data_prop res ''data'' of Arr xs \<Rightarrow> xs | _ \<Rightarrow> [])"

text \<open>
  The base shape of a response body: a boolean \<open>success\<close>, a string \<open>timestamp\<close>, and
  \<open>data\<close> without \<open>error\<close> when \<open>success\<close> is true, a string \<open>error\<close> without
  \<open>data\<close> when it is false.
\<close>

fun is_str :: "jsval \<Rightarrow> bool" where
  "is_str (Str t) = True"
| "is_str v = False"

definition envelope :: "response \<Rightarrow> bool" where
  "envelope r =
     (case json r of
        Some (Obj b) \<Rightarrow>
          is_str (get_prop b ''timestamp'') \<and>
          (if get_prop b ''success'' = Bool True
           then ''data'' \<in> set (map fst b) \<and> ''error'' \<notin> set (map fst b)
           else get_prop b ''success'' = Bool False \<and> is_str (get_prop b ''error'') \<and>
                ''data'' \<notin> set (map fst b))
      | _ \<Rightarrow> False)"

definition base_keys :: "string list" where
  "base_keys = [''success'', ''data'', ''error'', ''timestamp'']"

text \<open>
  An environment: the hash prefixes the password, the only token that verifies is
  \<open>good\<close>, the decimals of query strings are whole numbers of digits, an email has an
  \<open>@\<close>, and one date string is read.
\<close>

fun digits_value :: "string \<Rightarrow> nat \<Rightarrow> nat option" where
  "digits_value [] acc = Some acc"
| "digits_value (c # cs) acc =
     (if 48 \<le> (of_char c :: nat) \<and> (of_char c :: nat) \<le> 57
      then digits_value cs (10 * acc + (of_char c - 48))
      else None)"

definition demo_env :: env where
  "demo_env =
     \<lparr>now_iso = ''2025-11-06T12:34:56.000Z'', now_ms = 1762432496000, JWT_SECRET = ''secret'',
      bcrypt_hashSync = (\<lambda>p r. ''hash:'' @ p),
      bcrypt_compareSync = (\<lambda>p h. h = ''hash:'' @ p),
      jwt_sign = (\<lambda>payload k. ''good''),
      jwt_verify = (\<lambda>t k. if t = ''good'' then Some (Obj [(''sub'', Num (Fin 1))]) else None),
      Decimal = (\<lambda>t. if t = [] then None else map_option of_nat (digits_value t 0)),
      zod_email = (\<lambda>a. CHR ''@'' \<in> set a),
      Date_parse = (\<lambda>t. if t = ''2025-01-01T00:00:00.000Z'' then Some 1735689600000 else None)\<rparr>"

definition demo_request :: request where
  "demo_request =
     \<lparr>req_id = None, authorization = None, cookie_access_token = None, param_id = NaN,
      query_page = NaN, query_limit = NaN, query_email = None, query_name = None,
      query_status = None, query_minAmount = None, query_maxAmount = None,
      body = [], req_user = None\<rparr>"

definition alice :: obj where
  "alice = [(''id'', Num (Fin 1)), (''email'', Str ''Alice@test.com''),
            (''password'', Str ''hash:SuperSecret123!''), (''name'', Str ''Alice''),
            (''createdAt'', DateV 100), (''updatedAt'', DateV 100)]"

definition bob :: obj where
  "bob = [(''id'', Num (Fin 2)), (''email'', Str ''bob@test.com''),
          (''password'', Str ''hash:AnotherSecret456!''), (''name'', Str ''Bob''),
          (''createdAt'', DateV 200), (''updatedAt'', DateV 200)]"

definition carol :: obj where
  "carol = [(''id'', Num (Fin 3)), (''email'', Str ''carol@test.com''),
            (''password'', Str ''hash:CarolsSecret789!''), (''name'', Str ''Carol''),
            (''createdAt'', DateV 250), (''updatedAt'', DateV 250)]"

definition alice_profile :: obj where
  "alice_profile = [(''id'', Num (Fin 1)), (''userId'', Num (Fin 1)), (''name'', Str ''Primary Business''),
                    (''tax_id_number'', Str ''US12-3456789''),
                    (''address'', Str ''123 Business Street, New York''),
                    (''createdAt'', DateV 300), (''updatedAt'', DateV 300)]"

definition bob_profile :: obj where
  "bob_profile = [(''id'', Num (Fin 2)), (''userId'', Num (Fin 2)), (''name'', Str ''Consulting''),
                  (''tax_id_number'', Str ''IT99-0000001''),
                  (''address'', Str ''Via Roma 1, 00100 Roma''),
                  (''createdAt'', DateV 400), (''updatedAt'', DateV 400)]"

definition mk_invoice :: "nat \<Rightarrow> nat \<Rightarrow> rat \<Rightarrow> string \<Rightarrow> obj" where
  "mk_invoice i tp a st =
     [(''id'', Num (Fin (of_nat i))), (''taxProfileId'', Num (Fin (of_nat tp))), (''amount'', Dec a),
      (''status'', Str st), (''issuedAt'', DateV (int i))]"

definition demo_store :: store where
  "demo_store =
     \<lparr>users = [alice, bob], taxProfiles = [alice_profile, bob_profile],
      invoices = [mk_invoice 1 1 50 ''sent'', mk_invoice 2 1 150 ''sent'',
                  mk_invoice 3 1 250 ''draft'', mk_invoice 4 2 150 ''sent''],
      user_seq = 2\<rparr>"

text \<open>A store whose invoice table has \<open>n\<close> rows.\<close>

definition many_invoices :: "nat \<Rightarrow> store" where
  "many_invoices n =
     \<lparr>users = [alice], taxProfiles = [alice_profile],
      invoices = map (\<lambda>i. mk_invoice (Suc i) 1 100 ''sent'') [0..<n], user_seq = 1\<rparr>"

section \<open>Pagination of the list endpoints\<close>

text \<open>
  \<open>getPagination\<close>, which the user \<open>list\<close> calls, normalizes as the specification
  says: page 1 for a page that is not a number or is below 1, limit 10 for such a limit,
  and never a limit above 100.
\<close>

lemma getPagination_page_default:
  "rawPage = NaN \<or> js_less rawPage (Fin 1) \<Longrightarrow> fst (getPagination rawPage rawLimit) = Fin 1"
  by (auto simp: getPagination_def Number_isNaN_def DEFAULT_PAGE_def)

lemma getPagination_limit_default:
  "rawLimit = NaN \<or> js_less rawLimit (Fin 1) \<Longrightarrow> snd (getPagination rawPage rawLimit) = Fin 10"
  by (auto simp: getPagination_def Number_isNaN_def DEFAULT_LIMIT_def)

lemma getPagination_limit_range:
  "js_le (Fin 1) (snd (getPagination rawPage rawLimit)) \<and>
   js_le (snd (getPagination rawPage rawLimit)) (Fin 100)"
  by (cases rawLimit)
     (auto simp: getPagination_def Number_isNaN_def DEFAULT_LIMIT_def MAX_LIMIT_def Math_min_def js_le_def)

lemma getPagination_limit_999: "getPagination (Fin 1) (Fin 999) = (Fin 1, Fin 100)"
  by (simp add: getPagination_def Number_isNaN_def Math_min_def DEFAULT_PAGE_def MAX_LIMIT_def)

lemma inline_pagination_999: "inline_pagination (Fin 1) (Fin 999) = (Fin 1, Fin 999, Fin 0)"
  by (simp add: inline_pagination_def or_default_def)

lemma inline_pagination_negative: "inline_pagination (Fin (- 1)) (Fin (- 5)) = (Fin (- 1), Fin (- 5), Fin 10)"
  by (simp add: inline_pagination_def or_default_def)

lemma matches_Nil: "matches s m [] r"
  by (simp add: matches_def)

lemma length_order_desc: "length (order_desc f rs) = length rs"
  by (simp add: order_desc_def)

lemma invoice_where_no_filter:
  "query_status req = None \<Longrightarrow> query_email req = None \<Longrightarrow>
   query_minAmount req = None \<Longrightarrow> query_maxAmount req = None \<Longrightarrow>
   invoice_where e req = Inr []"
  by (simp add: invoice_where_def decimal_param_def given_def try_bind_def)

lemma trunc_of_int [simp]: "trunc (of_int n) = n"
  by (simp add: trunc_def)

lemma trunc_of_nat [simp]: "trunc (of_nat n) = int n"
  using trunc_of_int [of "int n"] by simp

lemma trunc_numeral [simp]: "trunc (numeral k) = numeral k" "trunc 0 = 0" "trunc 1 = 1"
  using trunc_of_int [of "numeral k"] trunc_of_int [of 0] trunc_of_int [of 1] by simp_all

text \<open>
  C1. The claim: on the list of each of the three entities a page that is not a number or
  is below 1 becomes 1, such a limit becomes 10, and a limit above 100 is clamped to 100,
  so that \<open>limit=999\<close> returns at most 100 items. The invoice \<open>list\<close> (and the tax
  profile \<open>list\<close>, whose first three statements are the same) does not call
  \<open>getPagination\<close>: on a table of 150 invoices, \<open>GET /api/invoices?page=1&limit=999\<close>
  answers 200 with \<open>limit\<close> 999 and all 150 rows in one page.
\<close>

theorem C1_invoice_list_limit_999_not_clamped:
  "map_sum id (\<lambda>res. (status res, data_prop res ''limit'', length (page_items res)))
     (invoice_list demo_env (many_invoices 150)
        (demo_request\<lparr>query_page := Fin 1, query_limit := Fin 999\<rparr>) res0)
   = Inr (200, Num (Fin 999), 150)"
  by (simp add: invoice_list_def inline_pagination_999 invoice_where_no_filter demo_request_def
      try_bind_def findMany_def window_def int64_def matches_Nil length_order_desc sendSuccess_def
      page_items_def data_prop_def body_prop_def spread_def requestId_part_def get_prop_def
      many_invoices_def count_def del: upt_rec_numeral)

section \<open>The authorization gate\<close>

lemma split_on_no_sep: "c \<notin> set a \<Longrightarrow> split_on c a = [a]"
  by (induction a) auto

lemma bearer_token:
  "CHR '' '' \<notin> set t \<Longrightarrow> at_index (split_on CHR '' '' (''Bearer '' @ t)) 1 = Some t"
  by (simp add: split_on_no_sep at_index_def)

text \<open>
  C2. On a protected route the token is the second space-separated piece of the
  \<open>Authorization\<close> header, else the \<open>access_token\<close> cookie: a request with neither
  header nor cookie has none, a request with \<open>Bearer t\<close> in the header, or with no header
  and \<open>t\<close> in the cookie, has \<open>t\<close>. A request without a token (or with an empty one) is
  answered 401 \<open>Missing token\<close>; a request whose token \<open>jwt.verify\<close> rejects is answered
  401 \<open>Invalid token\<close>; otherwise the handler runs on the request with the decoded
  payload attached. Both 401 answers are the same for every handler, so they do not depend
  on what the handler would have read.
\<close>

theorem C2_auth_gate:
  "(authorization req = None \<and> cookie_access_token req = None \<longrightarrow> extract_token req = None) \<and>
   (authorization req = Some (''Bearer '' @ t) \<and> CHR '' '' \<notin> set t \<or>
    authorization req = None \<and> cookie_access_token req = Some t \<longrightarrow> extract_token req = Some t) \<and>
   (extract_token req = None \<or> extract_token req = Some [] \<longrightarrow>
      protected e handler req res =
        Inl (res\<lparr>status := 401, json := Some (Obj [(''error'', Str ''Missing token'')])\<rparr>)) \<and>
   (extract_token req = Some t \<and> t \<noteq> [] \<and> jwt_verify e t (JWT_SECRET e) = None \<longrightarrow>
      protected e handler req res =
        Inl (res\<lparr>status := 401, json := Some (Obj [(''error'', Str ''Invalid token'')])\<rparr>)) \<and>
   (extract_token req = Some t \<and> t \<noteq> [] \<and> jwt_verify e t (JWT_SECRET e) = Some payload \<longrightarrow>
      protected e handler req res = Inr (handler (req\<lparr>req_user := Some payload\<rparr>) res))"
proof (intro conjI impI)
  assume "authorization req = None \<and> cookie_access_token req = None"
  then show "extract_token req = None"
    by (simp add: extract_token_def)
next
  assume "authorization req = Some (''Bearer '' @ t) \<and> CHR '' '' \<notin> set t \<or>
    authorization req = None \<and> cookie_access_token req = Some t"
  then show "extract_token req = Some t"
    by (auto simp: extract_token_def split_on_no_sep at_index_def)
next
  assume "extract_token req = None \<or> extract_token req = Some []"
  then show "protected e handler req res =
        Inl (res\<lparr>status := 401, json := Some (Obj [(''error'', Str ''Missing token'')])\<rparr>)"
    by (auto simp: protected_def verifyJwt_def)
next
  assume "extract_token req = Some t \<and> t \<noteq> [] \<and> jwt_verify e t (JWT_SECRET e) = None"
  then show "protected e handler req res =
        Inl (res\<lparr>status := 401, json := Some (Obj [(''error'', Str ''Invalid token'')])\<rparr>)"
    by (simp add: protected_def verifyJwt_def)
next
  assume "extract_token req = Some t \<and> t \<noteq> [] \<and> jwt_verify e t (JWT_SECRET e) = Some payload"
  then show "protected e handler req res = Inr (handler (req\<lparr>req_user := Some payload\<rparr>) res)"
    by (simp add: protected_def verifyJwt_def)
qed

text \<open>
  The three cases of C2 on the user \<open>get\<close> route: no token, a bearer token that does not
  verify, and the cookie token that does.
\<close>

theorem C2_auth_gate_witness:
  "protected demo_env (user_get demo_env demo_store) demo_request res0 =
     Inl (res0\<lparr>status := 401, json := Some (Obj [(''error'', Str ''Missing token'')])\<rparr>) \<and>
   protected demo_env (user_get demo_env demo_store)
     (demo_request\<lparr>authorization := Some ''Bearer tampered''\<rparr>) res0 =
     Inl (res0\<lparr>status := 401, json := Some (Obj [(''error'', Str ''Invalid token'')])\<rparr>) \<and>
   protected demo_env (user_get demo_env demo_store)
     (demo_request\<lparr>cookie_access_token := Some ''good''\<rparr>) res0 =
     Inr (user_get demo_env demo_store
            (demo_request\<lparr>cookie_access_token := Some ''good'', req_user := Some (Obj [(''sub'', Num (Fin 1))])\<rparr>) res0)"
  using C2_auth_gate [where req = demo_request and e = demo_env and res = res0
                         and handler = "user_get demo_env demo_store" and t = "''x''"]
        C2_auth_gate [where req = "demo_request\<lparr>authorization := Some ''Bearer tampered''\<rparr>"
                         and e = demo_env and res = res0
                         and handler = "user_get demo_env demo_store" and t = "''tampered''"]
        C2_auth_gate [where req = "demo_request\<lparr>cookie_access_token := Some ''good''\<rparr>"
                         and e = demo_env and res = res0
                         and handler = "user_get demo_env demo_store" and t = "''good''"
                         and payload = "Obj [(''sub'', Num (Fin 1))]"]
  by (simp add: demo_request_def demo_env_def)


section \<open>The response envelope\<close>

lemma map_of_set_prop: "map_of (set_prop k v ob) = (map_of ob)(k \<mapsto> v)"
  by (induction ob) (auto simp: fun_eq_iff)

lemma keys_set_prop: "fst ` set (set_prop k v ob) = insert k (fst ` set ob)"
  by (induction ob) auto

lemma get_prop_set_prop: "get_prop (set_prop k v ob) k' = (if k' = k then v else get_prop ob k')"
  by (simp add: get_prop_def map_of_set_prop)

lemma get_prop_spread_other:
  "k \<notin> fst ` set b \<Longrightarrow> get_prop (spread a b) k = get_prop a k"
  unfolding spread_def
  by (induction b arbitrary: a) (auto simp: get_prop_set_prop)

lemma keys_spread: "fst ` set (spread a b) = fst ` set a \<union> fst ` set b"
  unfolding spread_def
proof (induction b arbitrary: a)
  case Nil
  show ?case by simp
next
  case (Cons x b)
  obtain k v where x: "x = (k, v)" by (cases x)
  have "fst ` set (fold (\<lambda>(k, v). set_prop k v) (x # b) a) =
        fst ` set (set_prop k v a) \<union> fst ` set b"
    using Cons.IH [of "set_prop k v a"] by (simp add: x)
  also have "\<dots> = fst ` set a \<union> fst ` set (x # b)"
    by (simp add: keys_set_prop x)
  finally show ?case .
qed

lemma envelope_sendSuccess: "envelope (sendSuccess e res d c req)"
  by (auto simp: envelope_def sendSuccess_def requestId_part_def spread_def get_prop_def split: option.splits)

lemma envelope_sendError:
  assumes "set (map fst extra) \<inter> set base_keys = {}"
  shows "envelope (sendError e res msg c req extra)"
proof -
  let ?b = "spread [(''success'', Bool False), (''error'', Str msg), (''timestamp'', Str (now_iso e))] (requestId_part req)"
  have k: "set (map fst ?b) \<subseteq> {''success'', ''error'', ''timestamp'', ''requestId''}"
    by (auto simp: requestId_part_def spread_def split: option.splits if_splits)
  have d: "''data'' \<notin> set (map fst ?b)" using k by auto
  have g: "get_prop ?b ''success'' = Bool False" "get_prop ?b ''error'' = Str msg" "get_prop ?b ''timestamp'' = Str (now_iso e)"
    by (auto simp: requestId_part_def spread_def get_prop_def split: option.splits)
  from assms have n: "''success'' \<notin> set (map fst extra)" "''error'' \<notin> set (map fst extra)"
     "''timestamp'' \<notin> set (map fst extra)" "''data'' \<notin> set (map fst extra)"
    by (auto simp: base_keys_def)
  show ?thesis
    using n d g
    by (simp add: envelope_def sendError_def get_prop_spread_other keys_spread)
qed

lemma envelope_sendError_Nil: "envelope (sendError e res msg c req [])"
  by (rule envelope_sendError) simp


lemmas env_simps = envelope_sendSuccess envelope_sendError_Nil

lemma envelope_get: "envelope (get m e s req res)"
  by (cases m) (simp_all add: user_get_def invoice_get_def taxProfile_get_def env_simps
      split: sum.splits option.splits)

lemma envelope_update: "envelope (fst (update m e s req res))"
  by (cases m) (simp_all add: user_update_def invoice_update_def taxProfile_update_def env_simps
      split: sum.splits option.splits prod.splits)

lemma envelope_remove:
  "envelope (fst (remove m e s req res)) \<or> fst (remove m e s req res) = no_content res"
  by (cases m) (simp_all add: user_remove_def invoice_remove_def taxProfile_remove_def env_simps
      split: sum.splits option.splits prod.splits)

lemma envelope_user_list: "envelope (user_list e s req res)"
  by (simp add: user_list_def env_simps split: sum.splits prod.splits)

lemma envelope_invoice_list: "invoice_list e s req res = Inr r \<Longrightarrow> envelope r"
  by (auto simp: invoice_list_def try_bind_def env_simps split: sum.splits prod.splits)

lemma envelope_register: "envelope (fst (register_at e s0 s req res))"
  by (simp add: register_at_def register_catch_def Let_def env_simps
      split: sum.splits option.splits prod.splits)

lemma envelope_login: "envelope (login e s req res)"
  by (simp add: login_def Let_def env_simps split: sum.splits option.splits bool.splits)

lemma invoice_list_returns:
  "invoice_where e req = Inr w \<Longrightarrow> \<exists>r. invoice_list e s req res = Inr r"
  by (simp add: invoice_list_def try_bind_def split: prod.splits)

lemma no_content_not_envelope: "\<not> envelope (no_content res)"
  by (simp add: envelope_def no_content_def)

text \<open>
  The two answers of \<open>verifyJwt\<close> are written without \<open>sendError\<close>: their body has the
  single key \<open>error\<close>.
\<close>

lemma verifyJwt_answer_keys:
  "verifyJwt e req res = Respond r \<Longrightarrow> status r = 401 \<and> body_keys r = [''error''] \<and> \<not> envelope r"
  by (auto simp: verifyJwt_def body_keys_def envelope_def get_prop_def
      split: option.splits if_splits)

text \<open>
  C3, as stated, fails where a handler answers without a body: deleting the stored invoice 1
  answers \<open>res.status(204).send()\<close>, which carries no \<open>success\<close>, no \<open>timestamp\<close> and
  no \<open>data\<close>.
\<close>

theorem C3_delete_answers_without_body:
  "fst (invoice_remove demo_env demo_store (demo_request\<lparr>param_id := Fin 1\<rparr>) res0) = no_content res0 \<and>
   json (no_content res0) = None \<and> \<not> envelope (no_content res0)"
  by (simp add: invoice_remove_def validateNumericId_def js_le_def try_bind_def prisma_delete_def
      findUnique_def INT4_MAX_def has_id_def demo_store_def demo_request_def mk_invoice_def get_prop_def
      no_content_def envelope_def)

text \<open>
  C3, amended. Every body written by \<open>sendSuccess\<close> or \<open>sendError\<close> has the base shape,
  and extra fields whose keys are not base keys (the \<open>errorId\<close> of the error handler)
  leave it so. The handlers for get, update, list, register and login answer with such a
  body only; a delete answers with such a body or with 204 and no body.
\<close>

theorem C3_response_envelope:
  "envelope (sendSuccess e res d c req) \<and>
   (set (map fst extra) \<inter> set base_keys = {} \<longrightarrow> envelope (sendError e res msg c req extra)) \<and>
   envelope (get m e s req res) \<and>
   envelope (fst (update m e s req res)) \<and>
   (envelope (fst (remove m e s req res)) \<or> fst (remove m e s req res) = no_content res) \<and>
   envelope (user_list e s req res) \<and>
   (invoice_list e s req res = Inr r \<longrightarrow> envelope r) \<and>
   envelope (fst (register_at e s0 s req res)) \<and>
   envelope (login e s req res)"
  by (intro conjI impI)
     (simp_all add: envelope_sendSuccess envelope_sendError envelope_get envelope_update
        envelope_remove envelope_user_list envelope_invoice_list envelope_register envelope_login)

text \<open>
  The error handler's answer with its \<open>errorId\<close>, and the invoice list of the example
  store, have the base shape.
\<close>

theorem C3_response_envelope_witness:
  "set (map fst [(''errorId'', Str ''1762432496000'')]) \<inter> set base_keys = {} \<and>
   envelope (sendError demo_env res0 ''Internal server error'' 500 demo_request
               [(''errorId'', Str ''1762432496000'')]) \<and>
   (case invoice_list demo_env demo_store demo_request res0 of Inl err \<Rightarrow> False | Inr r \<Rightarrow> envelope r)"
proof -
  have d: "set (map fst [(''errorId'', Str ''1762432496000'')]) \<inter> set base_keys = {}"
    by (simp add: base_keys_def)
  have "invoice_where demo_env demo_request = Inr []"
    by (rule invoice_where_no_filter) (simp_all add: demo_request_def)
  then obtain r where r: "invoice_list demo_env demo_store demo_request res0 = Inr r"
    using invoice_list_returns by blast
  from C3_response_envelope [where e = demo_env and res = res0 and req = demo_request
      and s = demo_store and r = r and extra = "[(''errorId'', Str ''1762432496000'')]"
      and msg = "''Internal server error''" and c = 500] d r
  show ?thesis by simp
qed

section \<open>Identifiers: validation and lookup\<close>

lemmas demo_defs = demo_env_def demo_store_def demo_request_def alice_def bob_def alice_profile_def
  bob_profile_def mk_invoice_def res0_def

text \<open>
  An id that is not a positive integer is answered 400 by get, update and delete of every
  entity, with the store neither read nor written. A positive integer id that no row has
  is answered 404 by every get and by the delete of invoices and tax profiles; the delete
  of users and every update answer it with 400 and the message of the store's error. A
  positive integer id above the range of the id column is answered 400 by every handler.
\<close>

lemma invalid_id_get:
  "\<not> Number_isInteger (param_id req) \<or> js_le (param_id req) (Fin 0) \<Longrightarrow>
   status (get m e s req res) = 400 \<and> get m e s req res = get m e s' req res"
  by (cases m) (auto simp: user_get_def invoice_get_def taxProfile_get_def validateNumericId_def
      try_bind_def sendError_def)

lemma invalid_id_update:
  "\<not> Number_isInteger (param_id req) \<or> js_le (param_id req) (Fin 0) \<Longrightarrow>
   status (fst (update m e s req res)) = 400 \<and> snd (update m e s req res) = s \<and>
   fst (update m e s req res) = fst (update m e s' req res)"
  by (cases m) (auto simp: user_update_def invoice_update_def taxProfile_update_def validateNumericId_def sendError_def)

lemma invalid_id_remove:
  "\<not> Number_isInteger (param_id req) \<or> js_le (param_id req) (Fin 0) \<Longrightarrow>
   status (fst (remove m e s req res)) = 400 \<and> snd (remove m e s req res) = s \<and>
   fst (remove m e s req res) = fst (remove m e s' req res)"
  by (cases m) (auto simp: user_remove_def invoice_remove_def taxProfile_remove_def validateNumericId_def
      try_bind_def sendError_def)

lemma get_not_found:
  "Number_isInteger (param_id req) \<Longrightarrow> \<not> js_le (param_id req) (Fin 0) \<Longrightarrow>
   findUnique s m (param_id req) = Inr None \<Longrightarrow>
   get m e s req res = sendError e res ''Not found'' 404 req []"
  by (cases m) (auto simp: user_get_def invoice_get_def taxProfile_get_def validateNumericId_def
      try_bind_def getUser_def)

lemma remove_not_found:
  "m \<noteq> User \<Longrightarrow> Number_isInteger (param_id req) \<Longrightarrow> \<not> js_le (param_id req) (Fin 0) \<Longrightarrow>
   findUnique s m (param_id req) = Inr None \<Longrightarrow>
   remove m e s req res = (sendError e res ''Not found'' 404 req [], s)"
  by (cases m) (auto simp: invoice_remove_def taxProfile_remove_def validateNumericId_def try_bind_def
      prisma_delete_def not_found_error_def)

lemma user_remove_not_found:
  "Number_isInteger (param_id req) \<Longrightarrow> \<not> js_le (param_id req) (Fin 0) \<Longrightarrow>
   findUnique s User (param_id req) = Inr None \<Longrightarrow>
   user_remove e s req res = (sendError e res (err_message not_found_error) 400 req [], s)"
  by (auto simp: user_remove_def validateNumericId_def try_bind_def deleteUser_def prisma_delete_def)

lemma update_not_found:
  "Number_isInteger (param_id req) \<Longrightarrow> \<not> js_le (param_id req) (Fin 0) \<Longrightarrow>
   findUnique s m (param_id req) = Inr None \<Longrightarrow>
   status (fst (update m e s req res)) = 400 \<and> snd (update m e s req res) = s"
  by (cases m) (auto simp: user_update_def invoice_update_def taxProfile_update_def validateNumericId_def try_bind_def
      updateUser_def prisma_update_def sendError_def split: option.splits sum.splits)

lemma findUnique_out_of_range:
  "INT4_MAX < x \<Longrightarrow> x = of_int \<lfloor>x\<rfloor> \<Longrightarrow> findUnique s m (Fin x) = Inl range_error"
  by (simp add: findUnique_def)

lemma id_out_of_range:
  assumes "INT4_MAX < x" "x = of_int \<lfloor>x\<rfloor>" "param_id req = Fin x"
  shows "status (get m e s req res) = 400"
    and "status (fst (update m e s req res)) = 400"
    and "status (fst (remove m e s req res)) = 400"
proof -
  have pos: "validateNumericId (Fin x) f = Inr (Fin x)" for f
    using assms(1,2) by (simp add: validateNumericId_def js_le_def INT4_MAX_def)
  note fu = findUnique_out_of_range [OF assms(1,2)]
  show "status (get m e s req res) = 400"
    by (cases m) (simp_all add: user_get_def invoice_get_def taxProfile_get_def try_bind_def getUser_def
        pos fu assms(3) sendError_def)
  show "status (fst (update m e s req res)) = 400"
    by (cases m) (auto simp: user_update_def invoice_update_def taxProfile_update_def try_bind_def
        updateUser_def prisma_update_def pos fu assms(3) sendError_def split: option.splits sum.splits)
  show "status (fst (remove m e s req res)) = 400"
    by (cases m) (simp_all add: user_remove_def invoice_remove_def taxProfile_remove_def try_bind_def
        deleteUser_def prisma_delete_def pos fu assms(3) sendError_def range_error_def)
qed

text \<open>
  C4. The claim: get, update and delete of every entity answer 400 for an id that is not a
  positive integer and 404 for a positive integer id that no record has, never conflating
  the two. The \<open>catch\<close> of the three \<open>update\<close> handlers (and of the user \<open>remove\<close>) has
  no \<open>P2025\<close> branch: updating id 999, which no record has, answers 400 on each entity,
  the status an id that is not a number gets.
\<close>

theorem C4_update_of_missing_id_answers_400:
  "status (fst (update User demo_env demo_store
      (demo_request\<lparr>param_id := Fin 999, body := [(''name'', Str ''Alice Updated'')]\<rparr>) res0)) = 400 \<and>
   status (fst (update TaxProfile demo_env demo_store
      (demo_request\<lparr>param_id := Fin 999, body := [(''name'', Str ''Primary Business Updated'')]\<rparr>) res0)) = 400 \<and>
   status (fst (update Invoice demo_env demo_store
      (demo_request\<lparr>param_id := Fin 999, body := [(''status'', Str ''paid'')]\<rparr>) res0)) = 400 \<and>
   status (fst (update Invoice demo_env demo_store
      (demo_request\<lparr>param_id := NaN, body := [(''status'', Str ''paid'')]\<rparr>) res0)) = 400"
  by (simp add: user_update_def invoice_update_def taxProfile_update_def validateNumericId_def try_bind_def
      updateUser_def prisma_update_def sendError_def js_le_def findUnique_def has_id_def get_prop_def
      cleanUndefined_def rehash_def UserUpdateSchema_def TaxProfileUpdateSchema_def InvoiceUpdateSchema_def
      partial_field_def Name_def TaxProfileName_def InvoiceStatus_def InvoiceIssuedAt_def
      invalid_data_def key_out_of_range_def above_int4_def INT4_MAX_def demo_defs)

text \<open>
  C5. The claim: deleting a positive integer id that no record has answers 404 on every
  entity, on every call. The user \<open>remove\<close> has no \<open>P2025\<close> branch: deleting user 999
  answers 400 with the store's error message, and leaves the store as it was, so every
  repetition answers the same 400.
\<close>

theorem C5_user_delete_of_missing_id_answers_400:
  "user_remove demo_env demo_store (demo_request\<lparr>param_id := Fin 999\<rparr>) res0 =
     (sendError demo_env res0 (err_message not_found_error) 400 (demo_request\<lparr>param_id := Fin 999\<rparr>) [],
      demo_store) \<and>
   status (fst (user_remove demo_env demo_store (demo_request\<lparr>param_id := Fin 999\<rparr>) res0)) = 400"
  by (simp add: user_remove_def validateNumericId_def try_bind_def deleteUser_def prisma_delete_def
      js_le_def findUnique_def has_id_def get_prop_def sendError_def INT4_MAX_def demo_defs)

section \<open>Filters of the invoice list\<close>



lemma like_percent: "like ''%'' s"
  by (induction s) simp_all

lemma like_prefix: "literal t \<Longrightarrow> like (t @ ''%'') s = starts_with s t"
proof (induction t arbitrary: s)
  case Nil
  then show ?case by (cases s) (simp_all add: like_percent)
next
  case (Cons c t)
  then show ?case by (cases s) (auto simp: literal_def)
qed

lemma like_contains: "literal t \<Longrightarrow> like (contains_pattern t) s = str_includes s t"
proof (induction s)
  case Nil
  then show ?case by (cases t) (simp_all add: contains_pattern_def literal_def)
next
  case (Cons x xs)
  then show ?case using like_prefix [of t "x # xs"] by (simp add: contains_pattern_def)
qed













text \<open>On every request, an answer with status 200 carries the count of all matching rows.\<close>

lemma invoice_list_total:
  assumes "invoice_where e req = Inr w" "invoice_list e s req res = Inr res'"
  shows "status res' = 500 \<or>
         status res' = 200 \<and>
         data_prop res' ''total'' = Num (Fin (of_nat (length (filter (matches s Invoice w) (invoices s)))))"
  using assms
  by (auto simp: invoice_list_def try_bind_def count_def sendError_def sendSuccess_def data_prop_def
      body_prop_def spread_def requestId_part_def get_prop_def
      split: prod.splits sum.splits option.splits)

lemma data_prop_sendSuccess: "data_prop (sendSuccess e res (Obj d) c req) k = get_prop d k"
  by (auto simp: data_prop_def body_prop_def sendSuccess_def spread_def requestId_part_def get_prop_def
      split: option.splits)


lemma page_items_sendSuccess:
  "page_items (sendSuccess e res (Obj d) c req) = (case get_prop d ''data'' of Arr xs \<Rightarrow> xs | _ \<Rightarrow> [])"
  by (simp add: page_items_def data_prop_sendSuccess)

lemma status_sendSuccess: "status (sendSuccess e res d c req) = c"
  by (simp add: sendSuccess_def)




section \<open>Filters of the user list\<close>

lemma getPagination_absent: "getPagination NaN NaN = (Fin 1, Fin 10)"
  by (simp add: getPagination_def Number_isNaN_def DEFAULT_PAGE_def DEFAULT_LIMIT_def)

text \<open>
  The user \<open>list\<close> builds \<open>{ contains: ... }\<close> without \<open>mode: 'insensitive'\<close>: a user
  matches when the email and the name match the given texts as they are written, for a
  literal text when they contain it.
\<close>

lemma user_where_matches:
  "get_prop r ''email'' = Str em \<Longrightarrow> get_prop r ''name'' = Str nm \<Longrightarrow>
   matches s User (user_where req) r \<longleftrightarrow>
     (case given (query_email req) of None \<Rightarrow> True
      | Some t \<Rightarrow> if literal t then str_includes em t else like (contains_pattern t) em) \<and>
     (case given (query_name req) of None \<Rightarrow> True
      | Some t \<Rightarrow> if literal t then str_includes nm t else like (contains_pattern t) nm)"
  by (auto simp: user_where_def matches_def like_contains split: option.splits)

text \<open>
  C8. The claim: the email and name filters of the user list match case-insensitively.
  With the user \<open>Alice\<close>, \<open>Alice@test.com\<close> stored, \<open>GET /api/user?email=alice\<close> and
  \<open>GET /api/user?name=alice\<close> return no row, while \<open>email=Alice\<close> returns her.
\<close>

theorem C8_user_list_filter_is_case_sensitive:
  "page_items (user_list demo_env demo_store (demo_request\<lparr>query_email := Some ''alice''\<rparr>) res0) = [] \<and>
   page_items (user_list demo_env demo_store (demo_request\<lparr>query_name := Some ''alice''\<rparr>) res0) = [] \<and>
   page_items (user_list demo_env demo_store (demo_request\<lparr>query_email := Some ''Alice''\<rparr>) res0) = [Obj alice]"
  by (simp add: user_list_def getPagination_absent user_where_def given_def listUsers_def findMany_def
      window_def int64_def order_desc_def matches_def page_items_sendSuccess get_prop_def
      contains_pattern_def backslash_def demo_defs)

section \<open>Partial update\<close>

lemma get_prop_absent: "k \<notin> fst ` set b \<Longrightarrow> get_prop b k = Undefined"
proof -
  assume "k \<notin> fst ` set b"
  then have "map_of b k = None" by (simp add: map_of_eq_None_iff)
  then show ?thesis by (simp add: get_prop_def)
qed

lemma get_prop_Cons: "get_prop ((k', v) # b) k = (if k = k' then v else get_prop b k)"
  by (simp add: get_prop_def)

lemma get_prop_spread_distinct:
  "distinct (map fst b) \<Longrightarrow>
   get_prop (spread a b) k = (if k \<in> fst ` set b then get_prop b k else get_prop a k)"
  unfolding spread_def
proof (induction b arbitrary: a)
  case Nil
  show ?case by simp
next
  case (Cons x b)
  obtain k' v where x: "x = (k', v)" by (cases x)
  from Cons.prems have d: "distinct (map fst b)" and n: "k' \<notin> fst ` set b"
    by (auto simp: x)
  have "get_prop (fold (\<lambda>(k, v). set_prop k v) (x # b) a) k =
        (if k \<in> fst ` set b then get_prop b k else get_prop (set_prop k' v a) k)"
    using Cons.IH [OF d, of "set_prop k' v a"] by (simp add: x)
  also have "\<dots> = (if k \<in> fst ` set (x # b) then get_prop (x # b) k else get_prop a k)"
    using n by (auto simp: x get_prop_set_prop get_prop_Cons)
  finally show ?case .
qed

lemma distinct_cleanUndefined: "distinct (map fst d) \<Longrightarrow> distinct (map fst (cleanUndefined d))"
  by (simp add: cleanUndefined_def distinct_map_filter)

lemma keys_cleanUndefined_subset: "fst ` set (cleanUndefined d) \<subseteq> fst ` set d"
  by (auto simp: cleanUndefined_def)

lemma get_prop_cleanUndefined:
  "distinct (map fst d) \<Longrightarrow> get_prop (cleanUndefined d) k = get_prop d k"
proof (induction d)
  case Nil
  show ?case by (simp add: cleanUndefined_def)
next
  case (Cons x d)
  obtain k' v where x: "x = (k', v)" by (cases x)
  from Cons.prems have d: "distinct (map fst d)" and n: "k' \<notin> fst ` set d"
    by (auto simp: x)
  have ih: "get_prop (cleanUndefined d) k = get_prop d k" by (rule Cons.IH [OF d])
  have c: "cleanUndefined ((k', v) # d) = (if v \<noteq> Undefined then (k', v) # cleanUndefined d else cleanUndefined d)"
    by (simp add: cleanUndefined_def)
  from n have "get_prop d k' = Undefined" by (rule get_prop_absent)
  then show ?case
    using ih by (auto simp: c x get_prop_Cons)
qed

lemma keys_cleanUndefined:
  "distinct (map fst d) \<Longrightarrow> k \<in> fst ` set (cleanUndefined d) \<longleftrightarrow> get_prop d k \<noteq> Undefined"
proof (induction d)
  case Nil
  show ?case by (simp add: cleanUndefined_def get_prop_def)
next
  case (Cons x d)
  obtain k' v where x: "x = (k', v)" by (cases x)
  from Cons.prems have d: "distinct (map fst d)" and n: "k' \<notin> fst ` set d"
    by (auto simp: x)
  have ih: "k \<in> fst ` set (cleanUndefined d) \<longleftrightarrow> get_prop d k \<noteq> Undefined" by (rule Cons.IH [OF d])
  have c: "cleanUndefined ((k', v) # d) = (if v \<noteq> Undefined then (k', v) # cleanUndefined d else cleanUndefined d)"
    by (simp add: cleanUndefined_def)
  from n have u: "get_prop d k' = Undefined" by (rule get_prop_absent)
  from n keys_cleanUndefined_subset have n': "k' \<notin> fst ` set (cleanUndefined d)" by blast
  show ?case
    using ih u n' by (auto simp: c x get_prop_Cons)
qed

text \<open>
  The row the store writes: the properties of \<open>data\<close>, the refreshed \<open>updatedAt\<close> unless
  \<open>data\<close> is empty, and the old row elsewhere.
\<close>

lemma written_row_field:
  assumes "distinct (map fst d)"
  shows "get_prop (written_row e m old d) f =
     (if f \<in> fst ` set d then get_prop d f
      else if f = ''updatedAt'' \<and> m \<noteq> Invoice \<and> d \<noteq> [] then DateV (now_ms e)
      else get_prop old f)"
proof -
  have a: "\<And>f. get_prop (spread old (auto_fields e m)) f =
     (if f = ''updatedAt'' \<and> m \<noteq> Invoice then DateV (now_ms e) else get_prop old f)"
    by (simp add: auto_fields_def spread_def get_prop_set_prop)
  show ?thesis
    using assms by (simp add: written_row_def get_prop_spread_distinct a)
qed

lemma distinct_set_prop: "distinct (map fst b) \<Longrightarrow> distinct (map fst (set_prop k v b))"
  by (induction b) (auto simp: keys_set_prop)

lemma find_replace:
  "P y \<Longrightarrow> find P xs = Some x \<Longrightarrow> find P (map (\<lambda>x. if P x then y else x) xs) = Some y"
  by (induction xs) (auto split: if_splits)

lemma findUnique_found:
  "findUnique s m i = Inr (Some old) \<Longrightarrow> find (has_id i) (rows s m) = Some old \<and> has_id i old"
  by (auto simp: findUnique_def find_Some_iff split: jsnum.splits if_splits)

lemma findUnique_rows:
  "findUnique s m i = Inr x \<Longrightarrow> findUnique s' m i = Inr (find (has_id i) (rows s' m))"
  by (auto simp: findUnique_def split: jsnum.splits if_splits)

lemma rows_with_rows: "rows (with_rows s m rs) m = rs"
  by (cases m) simp_all

lemma parse_object_keys:
  "parse_object fs input = Some out \<Longrightarrow>
   fst ` set out \<subseteq> fst ` set fs \<and> (distinct (map fst fs) \<longrightarrow> distinct (map fst out))"
proof (induction fs arbitrary: out)
  case Nil
  then show ?case by simp
next
  case (Cons x fs)
  obtain k f where x: "x = (k, f)" by (cases x)
  from Cons.prems obtain v out' where
    v: "f (get_prop input k) = Some v" and o: "parse_object fs input = Some out'"
    and out: "out = (if v = Undefined \<and> k \<notin> set (map fst input) then out' else (k, v) # out')"
    by (auto simp: x split: option.splits)
  from Cons.IH [OF o] show ?case
    by (auto simp: out x)
qed

lemma parse_object_field:
  assumes "parse_object fs input = Some out" "distinct (map fst fs)" "(k, f) \<in> set fs"
  shows "f (get_prop input k) = Some (get_prop out k)"
  using assms
proof (induction fs arbitrary: out)
  case Nil
  then show ?case by simp
next
  case (Cons x fs)
  obtain k' f' where x: "x = (k', f')" by (cases x)
  from Cons.prems(1) obtain v out' where
    v: "f' (get_prop input k') = Some v" and o: "parse_object fs input = Some out'"
    and out: "out = (if v = Undefined \<and> k' \<notin> set (map fst input) then out' else (k', v) # out')"
    by (auto simp: x split: option.splits)
  from Cons.prems(2) have d: "distinct (map fst fs)" and n: "k' \<notin> fst ` set fs"
    by (auto simp: x)
  from parse_object_keys [OF o] n have n': "k' \<notin> fst ` set out'" by blast
  show ?case
  proof (cases "k = k'")
    case True
    with Cons.prems(3) n have "f = f'" by (force simp: x)
    then show ?thesis
      using v True get_prop_absent [OF n'] by (auto simp: out get_prop_Cons)
  next
    case False
    with Cons.prems(3) have "(k, f) \<in> set fs" by (simp add: x)
    from Cons.IH [OF o d this] show ?thesis
      using False by (auto simp: out get_prop_Cons)
  qed
qed

text \<open>What a store update leaves behind.\<close>

lemma prisma_update_result:
  assumes u: "prisma_update e s m i d = Inr (new, s')"
    and old: "findUnique s m i = Inr (Some old)"
    and idk: "''id'' \<notin> fst ` set d" and dist: "distinct (map fst d)"
  shows "new = written_row e m old d \<and> findUnique s' m i = Inr (Some new)"
proof -
  from u old have n: "new = written_row e m old d"
    and s': "s' = with_rows s m (map (\<lambda>x. if has_id i x then new else x) (rows s m))"
    by (auto simp: prisma_update_def split: option.splits if_splits)
  from findUnique_found [OF old] have f: "find (has_id i) (rows s m) = Some old" and h: "has_id i old"
    by simp_all
  have "get_prop new ''id'' = get_prop old ''id''"
    using idk by (simp add: n written_row_field [OF dist])
  then have "has_id i new"
    using h by (simp add: has_id_def)
  then have "find (has_id i) (map (\<lambda>x. if has_id i x then new else x) (rows s m)) = Some new"
    using f by (auto intro: find_replace)
  then show ?thesis
    using n s' findUnique_rows [OF old, of s'] by (simp add: rows_with_rows)
qed

lemma prisma_update_succeeds:
  assumes "\<not> invalid_data d" "\<not> key_out_of_range d" "findUnique s m i = Inr (Some old)"
    and "constraint_violation s m i d = None"
  shows "\<exists>new s'. prisma_update e s m i d = Inr (new, s')"
  using assms by (simp add: prisma_update_def)

lemma status_sendError: "status (sendError e res msg c req extra) = c"
  by (simp add: sendError_def)

lemma rehash_value:
  assumes pw: "get_prop c ''password'' = Undefined \<or> (\<exists>p. get_prop c ''password'' = Str p \<and> p \<noteq> [])"
  shows "\<exists>c'. rehash e c = Inr c' \<and>
           (\<forall>f. get_prop c' f =
              (if f = ''password''
               then (case get_prop c f of Str p \<Rightarrow> Str (hashPassword e p) | v \<Rightarrow> v)
               else get_prop c f)) \<and>
           fst ` set c' = fst ` set c \<and>
           (distinct (map fst c) \<longrightarrow> distinct (map fst c'))"
proof (cases "get_prop c ''password''")
  case (Str p)
  with pw have ne: "p \<noteq> []" by simp
  have "''password'' \<in> fst ` set c"
    using Str get_prop_absent [of "''password''" c] by auto
  then have k: "fst ` set (set_prop ''password'' (Str (hashPassword e p)) c) = fst ` set c"
    by (auto simp: keys_set_prop)
  show ?thesis
    using Str ne k by (auto simp: rehash_def get_prop_set_prop distinct_set_prop)
qed (use pw in \<open>auto simp: rehash_def\<close>)

text \<open>The tests of the store read the values of \<open>data\<close> only.\<close>

lemma invalid_data_iff:
  "distinct (map fst d) \<Longrightarrow> invalid_data d \<longleftrightarrow> (\<exists>k. get_prop d k = InvalidDate)"
proof (induction d)
  case Nil
  show ?case by (simp add: invalid_data_def get_prop_def)
next
  case (Cons x d)
  obtain k' v where x: "x = (k', v)" by (cases x)
  from Cons.prems have dd: "distinct (map fst d)" and n: "k' \<notin> fst ` set d"
    by (auto simp: x)
  have ih: "invalid_data d \<longleftrightarrow> (\<exists>k. get_prop d k = InvalidDate)"
    by (rule Cons.IH [OF dd])
  have i: "invalid_data (x # d) \<longleftrightarrow> v = InvalidDate \<or> invalid_data d"
    by (simp add: invalid_data_def x)
  have "(\<exists>k. get_prop (x # d) k = InvalidDate) \<longleftrightarrow> v = InvalidDate \<or> (\<exists>k. get_prop d k = InvalidDate)"
  proof
    assume "\<exists>k. get_prop (x # d) k = InvalidDate"
    then obtain k where "get_prop (x # d) k = InvalidDate" ..
    then show "v = InvalidDate \<or> (\<exists>k. get_prop d k = InvalidDate)"
      by (auto simp: x get_prop_Cons split: if_splits)
  next
    assume "v = InvalidDate \<or> (\<exists>k. get_prop d k = InvalidDate)"
    then show "\<exists>k. get_prop (x # d) k = InvalidDate"
    proof
      assume "v = InvalidDate"
      then have "get_prop (x # d) k' = InvalidDate" by (simp add: x get_prop_Cons)
      then show ?thesis ..
    next
      assume "\<exists>k. get_prop d k = InvalidDate"
      then obtain k where k: "get_prop d k = InvalidDate" ..
      then have "k \<noteq> k'" using get_prop_absent [OF n] by auto
      then have "get_prop (x # d) k = InvalidDate" using k by (simp add: x get_prop_Cons)
      then show ?thesis ..
    qed
  qed
  then show ?case using i ih by simp
qed

lemma store_tests_cong:
  assumes "distinct (map fst d)" "distinct (map fst d')"
    and "\<And>k. k \<noteq> ''password'' \<Longrightarrow> get_prop d' k = get_prop d k"
    and "get_prop d' ''password'' \<noteq> InvalidDate"
  shows "invalid_data d' \<longrightarrow> invalid_data d"
    and "key_out_of_range d' = key_out_of_range d"
    and "constraint_violation s m i d' = constraint_violation s m i d"
proof -
  show "invalid_data d' \<longrightarrow> invalid_data d"
  proof
    assume "invalid_data d'"
    then obtain k where k: "get_prop d' k = InvalidDate"
      using invalid_data_iff [OF assms(2)] by blast
    with assms(4) have "k \<noteq> ''password''" by auto
    with assms(3) k have "get_prop d k = InvalidDate" by simp
    then show "invalid_data d"
      using invalid_data_iff [OF assms(1)] by blast
  qed
  show "key_out_of_range d' = key_out_of_range d"
    by (simp add: key_out_of_range_def assms(3))
  show "constraint_violation s m i d' = constraint_violation s m i d"
    by (simp add: constraint_violation_def assms(3))
qed

text \<open>
  What the update schemas give. Every parsed object has distinct keys, all of them keys of
  the schema. The user and tax profile schemas give back the value the body has at each
  of their keys; the invoice schema gives the current time for \<open>issuedAt\<close> when the body
  has none.
\<close>

lemma update_schema_keys:
  assumes "UpdateSchema m e b = Some data"
  shows "distinct (map fst data) \<and> fst ` set data \<subseteq> set (schema_fields m)"
proof (cases m)
  case User
  from parse_object_keys [OF assms [unfolded User UpdateSchema.simps UserUpdateSchema_def]]
  show ?thesis by (simp add: User)
next
  case TaxProfile
  from parse_object_keys [OF assms [unfolded TaxProfile UpdateSchema.simps TaxProfileUpdateSchema_def]]
  show ?thesis by (simp add: TaxProfile)
next
  case Invoice
  from parse_object_keys [OF assms [unfolded Invoice UpdateSchema.simps InvoiceUpdateSchema_def]]
  show ?thesis by (simp add: Invoice)
qed

lemma partial_field_same:
  assumes "\<And>v w. f v = Some w \<Longrightarrow> w = v" "partial_field False f v = Some w"
  shows "w = v"
  using assms by (auto simp: partial_field_def split: if_splits)

lemma field_same:
  "Email e v = Some w \<Longrightarrow> w = v"
  "Password v = Some w \<Longrightarrow> w = v"
  "Name v = Some w \<Longrightarrow> w = v"
  "TaxProfileUserId v = Some w \<Longrightarrow> w = v"
  "TaxProfileName v = Some w \<Longrightarrow> w = v"
  "TaxProfileTaxIdNumber v = Some w \<Longrightarrow> w = v"
  "TaxProfileAddress v = Some w \<Longrightarrow> w = v"
  by (auto simp: Email_def Password_def Name_def TaxProfileUserId_def positive_int_def
      TaxProfileName_def TaxProfileTaxIdNumber_def TaxProfileAddress_def
      split: jsval.splits jsnum.splits if_splits)

lemma update_schema_reads_body:
  assumes "m \<noteq> Invoice" "UpdateSchema m e b = Some data" "f \<in> set (schema_fields m)"
  shows "get_prop data f = get_prop b f"
proof (cases m)
  case User
  note p = parse_object_field [OF assms(2) [unfolded User UpdateSchema.simps UserUpdateSchema_def]]
  from assms(3) User consider "f = ''email''" | "f = ''password''" | "f = ''name''" by auto
  then show ?thesis
  proof cases
    case 1
    have "partial_field False (Email e) (get_prop b ''email'') = Some (get_prop data ''email'')"
      by (rule p) simp_all
    then show ?thesis using 1 by (auto dest: partial_field_same [rotated] field_same)
  next
    case 2
    have "partial_field False Password (get_prop b ''password'') = Some (get_prop data ''password'')"
      by (rule p) simp_all
    then show ?thesis using 2 by (auto dest: partial_field_same [rotated] field_same)
  next
    case 3
    have "partial_field False Name (get_prop b ''name'') = Some (get_prop data ''name'')"
      by (rule p) simp_all
    then show ?thesis using 3 by (auto dest: partial_field_same [rotated] field_same)
  qed
next
  case TaxProfile
  note p = parse_object_field [OF assms(2) [unfolded TaxProfile UpdateSchema.simps TaxProfileUpdateSchema_def]]
  from assms(3) TaxProfile consider "f = ''userId''" | "f = ''name''" | "f = ''tax_id_number''"
    | "f = ''address''" by auto
  then show ?thesis
  proof cases
    case 1
    have "partial_field False TaxProfileUserId (get_prop b ''userId'') = Some (get_prop data ''userId'')"
      by (rule p) simp_all
    then show ?thesis using 1 by (auto dest: partial_field_same [rotated] field_same)
  next
    case 2
    have "partial_field False TaxProfileName (get_prop b ''name'') = Some (get_prop data ''name'')"
      by (rule p) simp_all
    then show ?thesis using 2 by (auto dest: partial_field_same [rotated] field_same)
  next
    case 3
    have "partial_field False TaxProfileTaxIdNumber (get_prop b ''tax_id_number'')
            = Some (get_prop data ''tax_id_number'')"
      by (rule p) simp_all
    then show ?thesis using 3 by (auto dest: partial_field_same [rotated] field_same)
  next
    case 4
    have "partial_field False TaxProfileAddress (get_prop b ''address'') = Some (get_prop data ''address'')"
      by (rule p) simp_all
    then show ?thesis using 4 by (auto dest: partial_field_same [rotated] field_same)
  qed
next
  case Invoice
  with assms(1) show ?thesis by simp
qed

lemma user_schema_password:
  assumes "UserUpdateSchema e b = Some data"
  shows "get_prop data ''password'' = Undefined \<or> (\<exists>p. get_prop data ''password'' = Str p \<and> 12 \<le> length p)"
proof -
  have "partial_field False Password (get_prop b ''password'') = Some (get_prop data ''password'')"
    by (rule parse_object_field [OF assms [unfolded UserUpdateSchema_def]]) simp_all
  then show ?thesis
    by (auto simp: partial_field_def Password_def split: if_splits jsval.splits)
qed

lemma invoice_schema_issuedAt:
  assumes "InvoiceUpdateSchema e b = Some data" "get_prop b ''issuedAt'' = Undefined"
  shows "get_prop data ''issuedAt'' = DateV (now_ms e)"
proof -
  have "partial_field True (InvoiceIssuedAt e) (get_prop b ''issuedAt'') = Some (get_prop data ''issuedAt'')"
    by (rule parse_object_field [OF assms(1) [unfolded InvoiceUpdateSchema_def]]) simp_all
  then show ?thesis
    using assms(2) by (simp add: partial_field_def InvoiceIssuedAt_def)
qed

text \<open>
  An update with a valid id of a stored row and a body that the schema accepts, when the
  parsed \<open>data\<close> breaks no constraint of the store, answers 200 and writes exactly the
  properties of \<open>data\<close> that are not \<open>undefined\<close>: the stored row afterwards has the
  value of \<open>data\<close> at each of them (for a user, the hash of the supplied password), and
  at every other field the value it had before. \<open>updatedAt\<close> is not a field of any update
  schema; the store refreshes it on each write of a user or a tax profile.
\<close>

lemma update_writes_parsed_data:
  assumes id: "Number_isInteger (param_id req)" "\<not> js_le (param_id req) (Fin 0)"
    and parsed: "UpdateSchema m e (body req) = Some data"
    and old: "findUnique s m (param_id req) = Inr (Some old)"
    and valid: "\<not> invalid_data data" "\<not> key_out_of_range data"
      "constraint_violation s m (param_id req) data = None"
  shows "\<exists>new.
      fst (update m e s req res) = sendSuccess e res (Obj new) 200 req \<and>
      findUnique (snd (update m e s req res)) m (param_id req) = Inr (Some new) \<and>
      (\<forall>f. get_prop data f \<noteq> Undefined \<longrightarrow>
           get_prop new f =
             (if m = User \<and> f = ''password''
              then (case get_prop data f of Str p \<Rightarrow> Str (hashPassword e p) | v \<Rightarrow> v)
              else get_prop data f)) \<and>
      (\<forall>f. get_prop data f = Undefined \<and> f \<noteq> ''updatedAt'' \<longrightarrow> get_prop new f = get_prop old f)"
proof -
  let ?i = "param_id req"
  let ?c = "cleanUndefined data"
  from update_schema_keys [OF parsed]
  have obj: "distinct (map fst data)" and schema: "fst ` set data \<subseteq> set (schema_fields m)"
    by simp_all
  have dc: "distinct (map fst ?c)" by (rule distinct_cleanUndefined [OF obj])
  have "''id'' \<notin> set (schema_fields m)" by (cases m) simp_all
  with schema have "''id'' \<notin> fst ` set data" by auto
  with keys_cleanUndefined_subset have idc: "''id'' \<notin> fst ` set ?c" by blast
  have v: "\<And>l. validateNumericId ?i l = Inr ?i"
    using id by (simp add: validateNumericId_def)
  have pwd: "get_prop data ''password'' = Undefined \<or>
             (\<exists>p. get_prop data ''password'' = Str p \<and> p \<noteq> [])"
  proof (cases m)
    case User
    with parsed have "UserUpdateSchema e (body req) = Some data" by simp
    from user_schema_password [OF this] show ?thesis by auto
  next
    case TaxProfile
    with schema have "''password'' \<notin> fst ` set data" by auto
    then show ?thesis by (simp add: get_prop_absent)
  next
    case Invoice
    with schema have "''password'' \<notin> fst ` set data" by auto
    then show ?thesis by (simp add: get_prop_absent)
  qed
  \<comment> \<open>the object handed to the store\<close>
  obtain d where d: "update m e s req res =
       (case prisma_update e s m ?i d of
          Inl err \<Rightarrow> (sendError e res (err_message err) 400 req [], s)
        | Inr (u, s') \<Rightarrow> (sendSuccess e res (Obj u) 200 req, s'))"
    and dk: "fst ` set d = fst ` set ?c" and dd: "distinct (map fst d)"
    and df: "\<And>f. get_prop d f =
              (if m = User \<and> f = ''password''
               then (case get_prop ?c f of Str p \<Rightarrow> Str (hashPassword e p) | v \<Rightarrow> v)
               else get_prop ?c f)"
  proof (cases m)
    case User
    from pwd have "get_prop ?c ''password'' = Undefined \<or>
                   (\<exists>p. get_prop ?c ''password'' = Str p \<and> p \<noteq> [])"
      by (simp add: get_prop_cleanUndefined [OF obj])
    from rehash_value [OF this, of e] obtain c' where
      c': "rehash e ?c = Inr c'"
      "\<forall>f. get_prop c' f =
              (if f = ''password''
               then (case get_prop ?c f of Str p \<Rightarrow> Str (hashPassword e p) | v \<Rightarrow> v)
               else get_prop ?c f)"
      "fst ` set c' = fst ` set ?c" "distinct (map fst c')"
      using dc by blast
    show ?thesis
      by (rule that [of c'])
         (use c' User parsed in \<open>simp_all add: user_update_def v try_bind_def updateUser_def\<close>)
  next
    case TaxProfile
    show ?thesis
      by (rule that [of ?c])
         (use TaxProfile dc parsed in \<open>simp_all add: taxProfile_update_def v\<close>)
  next
    case Invoice
    show ?thesis
      by (rule that [of ?c])
         (use Invoice dc parsed in \<open>simp_all add: invoice_update_def v\<close>)
  qed
  have same: "\<And>k. k \<noteq> ''password'' \<Longrightarrow> get_prop d k = get_prop data k"
    by (simp add: df get_prop_cleanUndefined [OF obj])
  have nd: "get_prop d ''password'' \<noteq> InvalidDate"
    using pwd by (auto simp: df get_prop_cleanUndefined [OF obj])
  from store_tests_cong [OF obj dd same nd] valid
  have ok: "\<not> invalid_data d" "\<not> key_out_of_range d" "constraint_violation s m ?i d = None"
    by auto
  from prisma_update_succeeds [OF ok(1,2) old ok(3)]
  obtain new s' where u: "prisma_update e s m ?i d = Inr (new, s')"
    by blast
  from idc dk have idd: "''id'' \<notin> fst ` set d" by simp
  from prisma_update_result [OF u old idd dd]
  have n: "new = written_row e m old d" and f: "findUnique s' m ?i = Inr (Some new)"
    by simp_all
  have fld: "\<And>f. get_prop new f = (if get_prop data f \<noteq> Undefined then get_prop d f
       else if f = ''updatedAt'' \<and> m \<noteq> Invoice \<and> d \<noteq> [] then DateV (now_ms e)
       else get_prop old f)"
    by (simp add: n written_row_field [OF dd] dk keys_cleanUndefined [OF obj])
  have r: "update m e s req res = (sendSuccess e res (Obj new) 200 req, s')"
    using d u by simp
  show ?thesis
    using f r fld df by (auto simp: get_prop_cleanUndefined [OF obj])
qed

text \<open>
  With \<open>update_schema_reads_body\<close>: an update of a user or a tax profile writes the fields
  that the body has and keeps the others. An update of an invoice whose body has no
  \<open>issuedAt\<close> writes the current time to \<open>issuedAt\<close>.
\<close>

lemma invoice_update_sets_issuedAt:
  assumes id: "Number_isInteger (param_id req)" "\<not> js_le (param_id req) (Fin 0)"
    and parsed: "InvoiceUpdateSchema e (body req) = Some data"
    and absent: "get_prop (body req) ''issuedAt'' = Undefined"
    and old: "findUnique s Invoice (param_id req) = Inr (Some old)"
    and valid: "\<not> key_out_of_range data" "constraint_violation s Invoice (param_id req) data = None"
  shows "\<exists>new.
      fst (invoice_update e s req res) = sendSuccess e res (Obj new) 200 req \<and>
      findUnique (snd (invoice_update e s req res)) Invoice (param_id req) = Inr (Some new) \<and>
      get_prop new ''issuedAt'' = DateV (now_ms e)"
proof -
  have p: "UpdateSchema Invoice e (body req) = Some data"
    using parsed by simp
  have i: "get_prop data ''issuedAt'' = DateV (now_ms e)"
    by (rule invoice_schema_issuedAt [OF parsed absent])
  have nv: "\<not> invalid_data data"
  proof
    assume "invalid_data data"
    then obtain k where k: "get_prop data k = InvalidDate"
      using invalid_data_iff update_schema_keys [OF p] by blast
    then have "k \<in> fst ` set data"
      using get_prop_absent [of k data] by auto
    then have "k \<in> set (schema_fields Invoice)"
      using update_schema_keys [OF p] by blast
    then consider "k = ''taxProfileId''" | "k = ''amount''" | "k = ''status''" | "k = ''issuedAt''"
      by auto
    then show False
    proof cases
      case 1
      have "partial_field False TaxProfileId (get_prop (body req) ''taxProfileId'')
              = Some (get_prop data ''taxProfileId'')"
        by (rule parse_object_field [OF parsed [unfolded InvoiceUpdateSchema_def]]) simp_all
      then show False
        using k 1 by (auto simp: partial_field_def TaxProfileId_def positive_int_def
            split: if_splits jsval.splits jsnum.splits)
    next
      case 2
      have "partial_field False InvoiceAmount (get_prop (body req) ''amount'')
              = Some (get_prop data ''amount'')"
        by (rule parse_object_field [OF parsed [unfolded InvoiceUpdateSchema_def]]) simp_all
      then show False
        using k 2 by (auto simp: partial_field_def InvoiceAmount_def Let_def
            split: if_splits jsval.splits list.splits)
    next
      case 3
      have "partial_field False InvoiceStatus (get_prop (body req) ''status'')
              = Some (get_prop data ''status'')"
        by (rule parse_object_field [OF parsed [unfolded InvoiceUpdateSchema_def]]) simp_all
      then show False
        using k 3 by (auto simp: partial_field_def InvoiceStatus_def split: if_splits jsval.splits)
    next
      case 4
      then show False using k i by simp
    qed
  qed
  from update_writes_parsed_data [OF id p old nv valid, of res]
  obtain new where
    "fst (update Invoice e s req res) = sendSuccess e res (Obj new) 200 req"
    "findUnique (snd (update Invoice e s req res)) Invoice (param_id req) = Inr (Some new)"
    "\<forall>f. get_prop data f \<noteq> Undefined \<longrightarrow>
           get_prop new f =
             (if Invoice = User \<and> f = ''password''
              then (case get_prop data f of Str p \<Rightarrow> Str (hashPassword e p) | v \<Rightarrow> v)
              else get_prop data f)"
    by blast
  then show ?thesis
    using i by auto
qed

text \<open>
  Updating the name and the password of user 1 with \<open>email: undefined\<close> in the body: the
  name and the hashed password are written, the id, the email and \<open>createdAt\<close> stay.
\<close>

lemma user_update_example:
  "status (fst (update User demo_env demo_store
      (demo_request\<lparr>param_id := Fin 1,
         body := [(''name'', Str ''Alice Updated''), (''email'', Undefined),
                  (''password'', Str ''NewPassword123!'')]\<rparr>) res0)) = 200 \<and>
   (case findUnique (snd (update User demo_env demo_store
      (demo_request\<lparr>param_id := Fin 1,
         body := [(''name'', Str ''Alice Updated''), (''email'', Undefined),
                  (''password'', Str ''NewPassword123!'')]\<rparr>) res0)) User (Fin 1) of
      Inr (Some new) \<Rightarrow> map (get_prop new) [''id'', ''email'', ''password'', ''name'', ''createdAt'']
    | _ \<Rightarrow> [])
   = [Num (Fin 1), Str ''Alice@test.com'', Str ''hash:NewPassword123!'', Str ''Alice Updated'', DateV 100]"
proof -
  let ?b = "[(''name'', Str ''Alice Updated''), (''email'', Undefined),
             (''password'', Str ''NewPassword123!'')]"
  let ?d = "[(''email'', Undefined), (''password'', Str ''NewPassword123!''),
             (''name'', Str ''Alice Updated'')]"
  let ?req = "demo_request\<lparr>param_id := Fin 1, body := ?b\<rparr>"
  have id: "Number_isInteger (param_id ?req)" "\<not> js_le (param_id ?req) (Fin 0)"
    by (simp_all add: js_le_def)
  have parsed: "UpdateSchema User demo_env (body ?req) = Some ?d"
    by (simp add: UserUpdateSchema_def partial_field_def Password_def Name_def get_prop_def)
  have old: "findUnique demo_store User (param_id ?req) = Inr (Some alice)"
    by (simp add: findUnique_def INT4_MAX_def has_id_def get_prop_def demo_defs)
  have valid: "\<not> invalid_data ?d" "\<not> key_out_of_range ?d"
    "constraint_violation demo_store User (param_id ?req) ?d = None"
    by (simp_all add: invalid_data_def key_out_of_range_def above_int4_def constraint_violation_def
        get_prop_def)
  from update_writes_parsed_data [OF id parsed old valid, of res0]
  obtain new where r: "fst (update User demo_env demo_store ?req res0)
        = sendSuccess demo_env res0 (Obj new) 200 ?req"
    and n: "findUnique (snd (update User demo_env demo_store ?req res0)) User (param_id ?req)
        = Inr (Some new)"
    and w: "\<forall>f. get_prop ?d f \<noteq> Undefined \<longrightarrow>
           get_prop new f =
             (if User = User \<and> f = ''password''
              then (case get_prop ?d f of Str p \<Rightarrow> Str (hashPassword demo_env p) | v \<Rightarrow> v)
              else get_prop ?d f)"
    and k: "\<forall>f. get_prop ?d f = Undefined \<and> f \<noteq> ''updatedAt'' \<longrightarrow> get_prop new f = get_prop alice f"
    by blast
  have "get_prop new ''name'' = Str ''Alice Updated''"
       "get_prop new ''password'' = Str ''hash:NewPassword123!''"
    using w by (simp_all add: get_prop_def hashPassword_def demo_env_def)
  moreover have "get_prop new ''id'' = Num (Fin 1)" "get_prop new ''email'' = Str ''Alice@test.com''"
       "get_prop new ''createdAt'' = DateV 100"
    using k by (simp_all add: get_prop_def alice_def)
  ultimately show ?thesis
    using n r by (simp add: status_sendSuccess)
qed

text \<open>
  C7. The claim: an update on any entity with a validated partial body writes exactly the
  fields present in the body, and every omitted field keeps its previous value. The
  \<open>issuedAt\<close> field of the invoice update schema accepts \<open>undefined\<close> and turns it into
  the current time: \<open>PATCH /api/invoices/1\<close> with the body \<open>{"status": "paid"}\<close> parses
  to data that has an \<open>issuedAt\<close>, and the stored invoice, issued at time 1, comes back
  with the status \<open>paid\<close> and \<open>issuedAt\<close> set to the time of the request.
\<close>

theorem C7_invoice_update_overwrites_omitted_issuedAt:
  "findUnique demo_store Invoice (Fin 1)
     = Inr (Some [(''id'', Num (Fin 1)), (''taxProfileId'', Num (Fin 1)), (''amount'', Dec 50),
                  (''status'', Str ''sent''), (''issuedAt'', DateV 1)]) \<and>
   InvoiceUpdateSchema demo_env [(''status'', Str ''paid'')]
     = Some [(''status'', Str ''paid''), (''issuedAt'', DateV (now_ms demo_env))] \<and>
   status (fst (update Invoice demo_env demo_store
      (demo_request\<lparr>param_id := Fin 1, body := [(''status'', Str ''paid'')]\<rparr>) res0)) = 200 \<and>
   findUnique (snd (update Invoice demo_env demo_store
      (demo_request\<lparr>param_id := Fin 1, body := [(''status'', Str ''paid'')]\<rparr>) res0)) Invoice (Fin 1)
     = Inr (Some [(''id'', Num (Fin 1)), (''taxProfileId'', Num (Fin 1)), (''amount'', Dec 50),
                  (''status'', Str ''paid''), (''issuedAt'', DateV 1762432496000)])"
proof -
  have p: "InvoiceUpdateSchema demo_env [(''status'', Str ''paid'')]
     = Some [(''status'', Str ''paid''), (''issuedAt'', DateV (now_ms demo_env))]"
    by (simp add: InvoiceUpdateSchema_def partial_field_def InvoiceStatus_def InvoiceIssuedAt_def
        get_prop_def)
  have o: "findUnique demo_store Invoice (Fin 1)
     = Inr (Some [(''id'', Num (Fin 1)), (''taxProfileId'', Num (Fin 1)), (''amount'', Dec 50),
                  (''status'', Str ''sent''), (''issuedAt'', DateV 1)])"
    by (simp add: findUnique_def INT4_MAX_def has_id_def get_prop_def demo_defs)
  have n: "now_ms demo_env = 1762432496000"
    by (simp add: demo_env_def)
  have u: "update Invoice demo_env demo_store
      (demo_request\<lparr>param_id := Fin 1, body := [(''status'', Str ''paid'')]\<rparr>) res0
    = (sendSuccess demo_env res0
         (Obj [(''id'', Num (Fin 1)), (''taxProfileId'', Num (Fin 1)), (''amount'', Dec 50),
               (''status'', Str ''paid''), (''issuedAt'', DateV 1762432496000)])
         200 (demo_request\<lparr>param_id := Fin 1, body := [(''status'', Str ''paid'')]\<rparr>),
       demo_store\<lparr>invoices :=
         [[(''id'', Num (Fin 1)), (''taxProfileId'', Num (Fin 1)), (''amount'', Dec 50),
           (''status'', Str ''paid''), (''issuedAt'', DateV 1762432496000)],
          mk_invoice 2 1 150 ''sent'', mk_invoice 3 1 250 ''draft'', mk_invoice 4 2 150 ''sent'']\<rparr>)"
    by (simp add: invoice_update_def validateNumericId_def js_le_def p cleanUndefined_def
        prisma_update_def invalid_data_def key_out_of_range_def above_int4_def
        constraint_violation_def amount_overflow_def written_row_def auto_fields_def spread_def
        findUnique_def INT4_MAX_def has_id_def get_prop_def n demo_store_def demo_request_def
        mk_invoice_def)
  show ?thesis
    unfolding u using p o
    by (simp add: status_sendSuccess findUnique_def INT4_MAX_def has_id_def get_prop_def
        demo_store_def)
qed

section \<open>Registration and login\<close>

lemma find_email_None: "find (\<lambda>r. get_prop r ''email'' = v) (users s) = None \<longleftrightarrow> \<not> email_taken s v"
  by (auto simp: email_taken_def find_None_iff list_ex_iff)

lemma findUnique_email_taken:
  "email_taken s (Str a) \<Longrightarrow> \<exists>u. findUnique_email s (Str a) = Inr (Some u)"
  using find_email_None [of "Str a" s] by (cases "find (\<lambda>r. get_prop r ''email'' = Str a) (users s)")
    (auto simp: findUnique_email_def)

lemma findUnique_email_free:
  "\<not> email_taken s (Str a) \<Longrightarrow> findUnique_email s (Str a) = Inr None"
  using find_email_None [of "Str a" s] by (simp add: findUnique_email_def)

lemma register_precheck:
  assumes "get_prop (body req) ''email'' = Str a" "email_taken s0 (Str a)"
  shows "register_at e s0 s req res = (sendError e res ''Email already used'' 409 req [], s)"
  using assms findUnique_email_taken [OF assms(2)]
  by (auto simp: register_at_def Let_def)

lemma register_constraint:
  assumes "get_prop (body req) ''email'' = Str a" "\<not> email_taken s0 (Str a)" "email_taken s (Str a)"
    and "get_prop (body req) ''password'' = Str p"
    and "name_value (get_prop (body req) ''name'') = Some n"
  shows "register_at e s0 s req res = (sendError e res ''Email already used'' 409 req [], s)"
  using assms findUnique_email_free [OF assms(2)]
  by (simp add: register_at_def Let_def hash_arg_def try_bind_def user_create_def get_prop_def
      register_catch_def unique_error_def)

text \<open>
  C9. A registration whose email is the email of an existing account is answered 409
  \<open>Email already used\<close> and leaves the store as it is: in a run without interleaved
  writes and whenever the check finds the account, whatever the other fields are; and,
  when the account appears only after the check, by the \<open>P2002\<close> branch of the \<open>catch\<close>
  once the create reaches the store (the password is a string and the name a string or
  absent).
\<close>

theorem C9_duplicate_email_conflict:
  assumes "get_prop (body req) ''email'' = Str a"
  shows "(email_taken s (Str a) \<longrightarrow>
            register e s req res = (sendError e res ''Email already used'' 409 req [], s)) \<and>
         (email_taken s0 (Str a) \<longrightarrow>
            register_at e s0 s req res = (sendError e res ''Email already used'' 409 req [], s)) \<and>
         (\<not> email_taken s0 (Str a) \<and> email_taken s (Str a) \<and>
          is_str (get_prop (body req) ''password'') \<and>
          name_value (get_prop (body req) ''name'') \<noteq> None \<longrightarrow>
            register_at e s0 s req res = (sendError e res ''Email already used'' 409 req [], s))"
proof (intro conjI impI)
  assume "email_taken s (Str a)"
  then show "register e s req res = (sendError e res ''Email already used'' 409 req [], s)"
    using register_precheck [OF assms] by (simp add: register_def)
next
  assume "email_taken s0 (Str a)"
  then show "register_at e s0 s req res = (sendError e res ''Email already used'' 409 req [], s)"
    by (rule register_precheck [OF assms])
next
  assume h: "\<not> email_taken s0 (Str a) \<and> email_taken s (Str a) \<and>
          is_str (get_prop (body req) ''password'') \<and>
          name_value (get_prop (body req) ''name'') \<noteq> None"
  then obtain p where p: "get_prop (body req) ''password'' = Str p"
    by (cases "get_prop (body req) ''password''") auto
  from h obtain n where n: "name_value (get_prop (body req) ''name'') = Some n" by auto
  from h show "register_at e s0 s req res = (sendError e res ''Email already used'' 409 req [], s)"
    using register_constraint [OF assms _ _ p n] by blast
qed

text \<open>
  Registering \<open>bob@test.com\<close> again: against the store that has Bob, and with a check
  that ran before Bob was stored.
\<close>

theorem C9_duplicate_email_conflict_witness:
  "email_taken demo_store (Str ''bob@test.com'') \<and>
   \<not> email_taken (demo_store\<lparr>users := [alice]\<rparr>) (Str ''bob@test.com'') \<and>
   is_str (Str ''SuperSecret123!'') \<and> name_value (Str ''Robert'') \<noteq> None \<and>
   register demo_env demo_store
     (demo_request\<lparr>body := [(''email'', Str ''bob@test.com''), (''password'', Str ''SuperSecret123!''),
                             (''name'', Str ''Robert'')]\<rparr>) res0 =
     (sendError demo_env res0 ''Email already used'' 409
        (demo_request\<lparr>body := [(''email'', Str ''bob@test.com''), (''password'', Str ''SuperSecret123!''),
                                (''name'', Str ''Robert'')]\<rparr>) [], demo_store) \<and>
   register_at demo_env (demo_store\<lparr>users := [alice]\<rparr>) demo_store
     (demo_request\<lparr>body := [(''email'', Str ''bob@test.com''), (''password'', Str ''SuperSecret123!''),
                             (''name'', Str ''Robert'')]\<rparr>) res0 =
     (sendError demo_env res0 ''Email already used'' 409
        (demo_request\<lparr>body := [(''email'', Str ''bob@test.com''), (''password'', Str ''SuperSecret123!''),
                                (''name'', Str ''Robert'')]\<rparr>) [], demo_store)"
proof -
  let ?req = "demo_request\<lparr>body := [(''email'', Str ''bob@test.com''), (''password'', Str ''SuperSecret123!''),
                             (''name'', Str ''Robert'')]\<rparr>"
  have b: "get_prop (body ?req) ''email'' = Str ''bob@test.com''"
    by (simp add: get_prop_def)
  have t: "email_taken demo_store (Str ''bob@test.com'')"
    by (simp add: email_taken_def get_prop_def demo_defs)
  have f: "\<not> email_taken (demo_store\<lparr>users := [alice]\<rparr>) (Str ''bob@test.com'')"
    by (simp add: email_taken_def get_prop_def demo_defs)
  have o: "is_str (get_prop (body ?req) ''password'')" "name_value (get_prop (body ?req) ''name'') \<noteq> None"
    by (simp_all add: get_prop_def name_value_def)
  show ?thesis
    using C9_duplicate_email_conflict [OF b, of demo_store demo_env res0 "demo_store\<lparr>users := [alice]\<rparr>"]
      t f o
    by (simp add: name_value_def)
qed

text \<open>
  A login whose body has a string email and a string password is answered by the same
  \<open>sendError(res, 'Invalid credentials', 401, req)\<close> when no account has the email and
  when the account's stored hash does not verify the password: for a store \<open>s1\<close> without
  the account and a store \<open>s2\<close> with it, the two responses are equal.
\<close>

lemma login_string_password_uniform:
  assumes "get_prop (body req) ''email'' = Str a" "get_prop (body req) ''password'' = Str p"
  shows "(\<not> email_taken s1 (Str a) \<longrightarrow>
            login e s1 req res = sendError e res ''Invalid credentials'' 401 req []) \<and>
         (findUnique_email s2 (Str a) = Inr (Some u) \<and> get_prop u ''password'' = Str h \<and>
          \<not> comparePassword e p h \<longrightarrow>
            login e s2 req res = sendError e res ''Invalid credentials'' 401 req []) \<and>
         (\<not> email_taken s1 (Str a) \<and>
          findUnique_email s2 (Str a) = Inr (Some u) \<and> get_prop u ''password'' = Str h \<and>
          \<not> comparePassword e p h \<longrightarrow>
            login e s1 req res = login e s2 req res)"
  using assms
  by (auto simp: login_def Let_def compare_args_def findUnique_email_free)

text \<open>
  A login whose password is not a string fails in two ways: with an email that no account
  has, \<open>!user\<close> answers 401 before the password is looked at; with the email of an
  account, \<open>bcrypt.compareSync\<close> throws and the \<open>catch\<close> answers 500.
\<close>

lemma login_without_password:
  assumes "get_prop (body req) ''email'' = Str a" "\<not> is_str (get_prop (body req) ''password'')"
  shows "(\<not> email_taken s (Str a) \<longrightarrow>
            login e s req res = sendError e res ''Invalid credentials'' 401 req []) \<and>
         (email_taken s (Str a) \<longrightarrow>
            login e s req res = sendError e res ''Login failed'' 500 req [])"
proof (intro conjI impI)
  assume "\<not> email_taken s (Str a)"
  then show "login e s req res = sendError e res ''Invalid credentials'' 401 req []"
    using assms(1) by (simp add: login_def Let_def findUnique_email_free)
next
  assume "email_taken s (Str a)"
  then obtain u where "findUnique_email s (Str a) = Inr (Some u)"
    using findUnique_email_taken by blast
  then show "login e s req res = sendError e res ''Login failed'' 500 req []"
    using assms by (cases "get_prop (body req) ''password''") (simp_all add: login_def Let_def compare_args_def)
qed

text \<open>
  C10. The claim: every failing login is answered by the same 401 \<open>Invalid credentials\<close>,
  so that a response does not tell an unknown email from a wrong password. \<open>login\<close>
  reads the body without a schema: \<open>POST /api/auth/login\<close> with the body
  \<open>{"email": "Alice@test.com"}\<close>, the email of a stored account, is answered 500
  \<open>Login failed\<close>, and with \<open>{"email": "nobody@test.com"}\<close>, which no account has,
  401 \<open>Invalid credentials\<close>; a password that is a number does the same.
\<close>

theorem C10_login_without_password_tells_known_email:
  "login demo_env demo_store (demo_request\<lparr>body := [(''email'', Str ''Alice@test.com'')]\<rparr>) res0
     = sendError demo_env res0 ''Login failed'' 500
         (demo_request\<lparr>body := [(''email'', Str ''Alice@test.com'')]\<rparr>) [] \<and>
   login demo_env demo_store (demo_request\<lparr>body := [(''email'', Str ''nobody@test.com'')]\<rparr>) res0
     = sendError demo_env res0 ''Invalid credentials'' 401
         (demo_request\<lparr>body := [(''email'', Str ''nobody@test.com'')]\<rparr>) [] \<and>
   status (login demo_env demo_store (demo_request\<lparr>body := [(''email'', Str ''Alice@test.com'')]\<rparr>) res0)
     = 500 \<and>
   status (login demo_env demo_store (demo_request\<lparr>body := [(''email'', Str ''nobody@test.com'')]\<rparr>) res0)
     = 401 \<and>
   status (login demo_env demo_store
     (demo_request\<lparr>body := [(''email'', Str ''Alice@test.com''), (''password'', Num (Fin 1))]\<rparr>) res0)
     = 500 \<and>
   status (login demo_env demo_store
     (demo_request\<lparr>body := [(''email'', Str ''nobody@test.com''), (''password'', Num (Fin 1))]\<rparr>) res0)
     = 401"
  by (simp add: login_def Let_def findUnique_email_def compare_args_def get_prop_def sendError_def
      demo_store_def demo_request_def alice_def bob_def)

end
